theory Spec2Isabelle
  imports Complex_Main "HOL-Library.Log_Nat"
begin

section \<open>Documents of the marketplace database\<close>

text \<open>
  The controllers work on MongoDB collections through Mongoose models. Each collection
  is a list of documents in insertion order, each document a record with the paths of
  its schema that the controllers read or write. An ObjectId is a natural number.

  A stored number is carried as a rational. The products, differences and sums that
  \<open>purchaseRule\<close> computes are rounded to the nearest IEEE 754 double (\<open>fl\<close> below), as
  JavaScript does. The quotient of \<open>requestRefund\<close> is only compared with 30: rounding
  is monotone and 30 is a double, so the comparison comes out as on the exact quotient.
  The mean of \<open>avgRating\<close> is kept exact, and the one non-number a controller can
  compute, \<open>0 / 0\<close>, is the value \<open>NaN\<close> of \<open>jsnum\<close>. The example documents write a
  decimal amount such as 29.99 as the rational of that name, for the double nearest to
  it; the properties proved on them do not depend on the difference.

  The transaction and review controllers read and write some paths that the schemas of
  \<open>Rule.js\<close> and \<open>User.js\<close> do not declare (\<open>pricing.type\<close>, \<open>pricing.amount\<close>,
  \<open>creator\<close>, \<open>stats.*\<close>, \<open>statistics.earnings\<close>). A document carries each of them as an
  optional field, \<open>None\<close> being JavaScript's \<open>undefined\<close>. A document that conforms to
  its schema has \<open>None\<close> in all of them, and so has every rule that \<open>Rule.findById\<close>
  loads through the model of \<open>Rule.js\<close>.
\<close>

type_synonym oid = nat

datatype jsnum = NaN | Num rat

datatype error =
    ApiError nat string
  | TypeError string
  | ReferenceError string
  | ValidationError string

datatype tx_status = PENDING | COMPLETED | FAILED | REFUNDED | DISPUTED

datatype visibility = PUBLIC | PRIVATE | UNLISTED

datatype role = USER | VERIFIED_CONTRIBUTOR | MODERATOR | ADMIN

text \<open>
  The values of the \<open>metadata\<close> map of a Transaction. The map is absent (\<open>None\<close>) in a
  transaction stored without one.
\<close>

datatype meta_val = MStr string | MDate int | MId oid | MUndefined

record pricing_doc =
  isPaid :: bool
  price :: rat
  currency :: string
  licenseType :: string
  pricing_type :: "string option"
  pricing_amount :: "rat option"

record rule_statistics =
  views :: nat
  downloads :: nat
  forks :: nat
  purchases_count :: nat
  statistics_rating :: rat
  totalRatings :: nat

record rule_stats =
  stats_purchases :: "rat option"
  stats_revenue :: "rat option"
  stats_rating :: "jsnum option"
  stats_reviewCount :: "nat option"

record rule_doc =
  rule_id :: oid
  rule_title :: string
  rule_author :: oid
  rule_query :: string
  rule_visibility :: visibility
  rule_pricing :: pricing_doc
  rule_statistics :: rule_statistics
  rule_creator :: "oid option"
  rule_stats :: "rule_stats option"

record user_doc =
  user_id :: oid
  username :: string
  email :: string
  user_role :: role
  totalEarnings :: rat
  statistics_earnings :: "rat option"

record transaction_doc =
  tx_id :: oid
  tx_buyer :: oid
  tx_seller :: oid
  tx_rule :: oid
  tx_amount :: rat
  tx_currency :: string
  tx_paymentMethod :: string
  tx_status :: tx_status
  tx_paymentIntentId :: string
  tx_platformFee :: rat
  tx_sellerEarnings :: rat
  tx_createdAt :: int
  tx_metadata :: "(string \<times> meta_val) list option"

record purchase_doc =
  purchase_id :: oid
  purchase_user :: oid
  purchase_rule :: oid
  purchase_transaction :: oid
  licenseKey :: string
  purchase_isActive :: bool
  downloads_count :: nat
  accessGrantedAt :: int

record review_doc =
  review_id :: oid
  review_rule :: oid
  review_user :: oid
  review_rating :: int
  review_comment :: string
  verified :: bool
  helpful_count :: int
  helpful_users :: "oid list"
  reported :: bool
  review_isActive :: bool

record notification_doc =
  recipient :: oid
  notification_type :: string
  notification_title :: string

record activity_doc =
  activity_user :: oid
  activity_type :: string
  activity_target :: oid

text \<open>
  The database. \<open>next_id\<close> is the next fresh ObjectId; \<open>strict\<close> is Mongoose's schema
  option of that name (on by default): an update operator on a path the schema does not
  declare is dropped when it is on, and applied to the stored document when it is off.
\<close>

record db =
  rules :: "rule_doc list"
  users :: "user_doc list"
  transactions :: "transaction_doc list"
  purchases :: "purchase_doc list"
  reviews :: "review_doc list"
  notifications :: "notification_doc list"
  activities :: "activity_doc list"
  next_id :: oid
  strict :: bool

text \<open>A rule document as \<open>Rule.js\<close> declares it: none of the undeclared paths is present.\<close>

definition conforms_rule_schema :: "rule_doc \<Rightarrow> bool" where
  "conforms_rule_schema r \<longleftrightarrow>
     pricing_type (rule_pricing r) = None \<and> pricing_amount (rule_pricing r) = None \<and>
     rule_creator r = None \<and> rule_stats r = None"

subsection \<open>Queries\<close>

definition findRule :: "db \<Rightarrow> oid \<Rightarrow> rule_doc option" where
  "findRule st i = find (\<lambda>r. rule_id r = i) (rules st)"

definition findTransaction :: "db \<Rightarrow> oid \<Rightarrow> transaction_doc option" where
  "findTransaction st i = find (\<lambda>t. tx_id t = i) (transactions st)"

definition findReview :: "db \<Rightarrow> oid \<Rightarrow> review_doc option" where
  "findReview st i = find (\<lambda>r. review_id r = i) (reviews st)"

text \<open>\<open>Purchase.findOne({user, rule, isActive: true})\<close>, also \<open>Purchase.exists\<close>.\<close>

definition findActivePurchase :: "db \<Rightarrow> oid \<Rightarrow> oid \<Rightarrow> purchase_doc option" where
  "findActivePurchase st u r =
     find (\<lambda>p. purchase_user p = u \<and> purchase_rule p = r \<and> purchase_isActive p) (purchases st)"

text \<open>
  A write to one document selected by a filter reaches the first match, the one that
  \<open>findById\<close> and \<open>findOne\<close> return. \<open>doc.save()\<close> of a loaded document replaces the
  stored document of its \<open>_id\<close>.
\<close>

fun update_first :: "('a \<Rightarrow> bool) \<Rightarrow> ('a \<Rightarrow> 'a) \<Rightarrow> 'a list \<Rightarrow> 'a list" where
  "update_first P f [] = []"
| "update_first P f (x # xs) = (if P x then f x # xs else x # update_first P f xs)"

definition saveRule :: "rule_doc \<Rightarrow> db \<Rightarrow> db" where
  "saveRule r st = st\<lparr>rules := update_first (\<lambda>x. rule_id x = rule_id r) (\<lambda>x. r) (rules st)\<rparr>"

definition saveTransaction :: "transaction_doc \<Rightarrow> db \<Rightarrow> db" where
  "saveTransaction t st =
     st\<lparr>transactions := update_first (\<lambda>x. tx_id x = tx_id t) (\<lambda>x. t) (transactions st)\<rparr>"

definition savePurchase :: "purchase_doc \<Rightarrow> db \<Rightarrow> db" where
  "savePurchase p st =
     st\<lparr>purchases := update_first (\<lambda>x. purchase_id x = purchase_id p) (\<lambda>x. p) (purchases st)\<rparr>"

definition saveReview :: "review_doc \<Rightarrow> db \<Rightarrow> db" where
  "saveReview r st =
     st\<lparr>reviews := update_first (\<lambda>x. review_id x = review_id r) (\<lambda>x. r) (reviews st)\<rparr>"

definition notify :: "oid \<Rightarrow> string \<Rightarrow> string \<Rightarrow> db \<Rightarrow> db" where
  "notify to ty title st =
     st\<lparr>notifications := notifications st @
        [\<lparr>recipient = to, notification_type = ty, notification_title = title\<rparr>]\<rparr>"

section \<open>Arithmetic on doubles\<close>

text \<open>
  A finite double is \<open>m * 2 ^ (e - 52)\<close> with an integer \<open>m\<close> of at most 53 bits and
  \<open>e \<ge> -1022\<close>. \<open>fl x\<close> is the double nearest to \<open>x\<close>, ties going to the even \<open>m\<close>:
  \<open>flog2 x\<close> is \<open>\<lfloor>log\<^sub>2 x\<rfloor>\<close> for \<open>x \<ge> 2 ^ -1074\<close> (and below -1022 for a smaller positive
  \<open>x\<close>), so the spacing \<open>2 ^ (e - 52)\<close> is that of the binade of \<open>x\<close>, or \<open>2 ^ -1074\<close> for
  a subnormal. Overflow to Infinity, which takes a result of \<open>2 ^ 1024\<close> or more, is
  not modelled. \<open>a * b\<close>, \<open>a - b\<close> and \<open>a + b\<close> of JavaScript are \<open>fl\<close> of the exact result.
\<close>

definition round_even :: "rat \<Rightarrow> int" where
  "round_even x = (let n = \<lfloor>x\<rfloor>; r = x - of_int n in
      if r < 1 / 2 then n else if 1 / 2 < r then n + 1 else if even n then n else n + 1)"

definition flog2 :: "rat \<Rightarrow> int" where
  "flog2 x = int (floorlog 2 (nat \<lfloor>x * 2 ^ 1074\<rfloor>)) - 1075"

definition fl :: "rat \<Rightarrow> rat" where
  "fl x = (if x = 0 then 0 else
     let e = max (flog2 \<bar>x\<bar>) (- 1022); u = 2 powi (e - 52)
     in of_int (round_even (x / u)) * u)"

section \<open>Transaction controller\<close>

subsection \<open>purchaseRule\<close>

record purchase_response =
  resp_transaction :: transaction_doc
  resp_purchase :: purchase_doc

text \<open>
  \<open>exports.purchaseRule\<close>. \<open>user\<close> is \<open>req.user\<close>, \<open>hex1\<close> and \<open>hex2\<close> are the two
  results of \<open>crypto.randomBytes(16).toString("hex")\<close> (the second already in upper
  case), \<open>now\<close> is the clock in milliseconds. The database is returned in every case,
  since an exception thrown after a \<open>save()\<close> leaves what was saved.

  \<open>pricing\<close> is a nested path of the schema, present in every loaded rule, so
  \<open>!rule.pricing\<close> is false. \<open>rule.creator.toString()\<close> and \<open>rule.stats.purchases\<close>
  throw a TypeError when \<open>rule.creator\<close> or \<open>rule.stats\<close> is undefined.
  \<open>transaction.save()\<close> validates \<open>amount\<close> (required, \<open>min: 0\<close>) and throws when it
  is undefined or negative. \<open>0.1\<close> is the double \<open>fl (1 / 10)\<close>. \<open>rule.creator\<close> is an
  ObjectId, so \<open>rule.creator.email\<close> is undefined. The \<open>message\<close>, \<open>data\<close> and
  \<open>actionUrl\<close> of a Notification decide nothing and are left out.

  A rule gets past the first check only with a \<open>pricing.type\<close>, which no rule loaded
  through \<open>Rule.js\<close> has.
\<close>

definition purchaseRule ::
  "db \<Rightarrow> user_doc \<Rightarrow> oid \<Rightarrow> string option \<Rightarrow> string \<Rightarrow> string \<Rightarrow> int
     \<Rightarrow> db \<times> (error + purchase_response)" where
  "purchaseRule st user ruleId paymentMethodId hex1 hex2 now =
    (case findRule st ruleId of
       None \<Rightarrow> (st, Inl (ApiError 404 ''Rule not found''))
     | Some rule \<Rightarrow>
        if pricing_type (rule_pricing rule) \<noteq> Some ''PAID''
        then (st, Inl (ApiError 400 ''This rule is not for sale''))
        else (case findActivePurchase st (user_id user) ruleId of
           Some existingPurchase \<Rightarrow>
             (st, Inl (ApiError 409 ''You have already purchased this rule''))
         | None \<Rightarrow>
            (case rule_creator rule of
               None \<Rightarrow> (st, Inl (TypeError ''rule.creator is undefined''))
             | Some creator \<Rightarrow>
                if creator = user_id user
                then (st, Inl (ApiError 400 ''You cannot purchase your own rule''))
                else (case pricing_amount (rule_pricing rule) of
                   None \<Rightarrow> (st, Inl (ValidationError ''amount''))
                 | Some amount \<Rightarrow>
                    let platformFeePercent = fl (1 / 10);
                        platformFee = fl (amount * platformFeePercent);
                        sellerEarnings = fl (amount - platformFee)
                    in if amount < 0 then (st, Inl (ValidationError ''amount''))
                       else
                        let transaction =
                              \<lparr>tx_id = next_id st, tx_buyer = user_id user, tx_seller = creator,
                               tx_rule = ruleId, tx_amount = amount, tx_currency = ''USD'',
                               tx_paymentMethod = ''STRIPE'', tx_status = COMPLETED,
                               tx_paymentIntentId =
                                 (case paymentMethodId of
                                    None \<Rightarrow> hex1
                                  | Some pm \<Rightarrow> if pm = [] then hex1 else pm),
                               tx_platformFee = platformFee, tx_sellerEarnings = sellerEarnings,
                               tx_createdAt = now,
                               tx_metadata =
                                 Some [(''ruleTitle'', MStr (rule_title rule)),
                                       (''buyerEmail'', MStr (email user)),
                                       (''sellerEmail'', MUndefined)]\<rparr>;
                            st1 = st\<lparr>transactions := transactions st @ [transaction],
                                     next_id := Suc (next_id st)\<rparr>;
                            purchase =
                              \<lparr>purchase_id = next_id st1, purchase_user = user_id user,
                               purchase_rule = ruleId, purchase_transaction = tx_id transaction,
                               licenseKey = hex2, purchase_isActive = True,
                               downloads_count = 0, accessGrantedAt = now\<rparr>;
                            st2 = st1\<lparr>purchases := purchases st1 @ [purchase],
                                      next_id := Suc (next_id st1)\<rparr>
                        in (case rule_stats rule of
                              None \<Rightarrow> (st2, Inl (TypeError ''rule.stats is undefined''))
                            | Some stats \<Rightarrow>
                               let stats' = stats
                                     \<lparr>stats_purchases :=
                                        Some (fl ((case stats_purchases stats of
                                                     None \<Rightarrow> 0 | Some n \<Rightarrow> n) + 1)),
                                      stats_revenue :=
                                        Some (fl ((case stats_revenue stats of
                                                     None \<Rightarrow> 0 | Some n \<Rightarrow> n) + amount))\<rparr>;
                                   st3 = saveRule (rule\<lparr>rule_stats := Some stats'\<rparr>) st2;
                                   st4 = notify creator ''RULE_PURCHASED''
                                           ''Your rule was purchased'' st3;
                                   st5 = notify (user_id user) ''RULE_PURCHASED''
                                           ''Purchase successful'' st4
                               in (st5, Inr \<lparr>resp_transaction = transaction,
                                             resp_purchase = purchase\<rparr>))))))"

subsection \<open>requestRefund\<close>

text \<open>
  \<open>exports.requestRefund\<close>. \<open>reason\<close> is \<open>req.body.reason\<close>; \<open>!reason\<close> holds of
  \<open>undefined\<close> and of the empty string. \<open>Date.now() - transaction.createdAt\<close> is a
  number of milliseconds.

  \<open>transaction.metadata = {...transaction.metadata, refundReason, refundRequestedAt,
  refundRequestedBy}\<close>: the \<open>metadata\<close> of a loaded transaction that has one is a
  Mongoose map. The spread of a Mongoose map yields the own properties of the map
  object, whose names begin with \<open>$__\<close>, and not its entries. The cast of the new object
  to the Map path refuses a key that begins with \<open>$\<close>, and \<open>transaction.save()\<close>
  rejects with a ValidationError: the status set on the loaded document is not
  written, and no notification is created. When the transaction has no \<open>metadata\<close>,
  the spread of \<open>undefined\<close> is empty, the three new keys are cast and the transaction
  is saved.
\<close>

definition requestRefund ::
  "db \<Rightarrow> user_doc \<Rightarrow> oid \<Rightarrow> string option \<Rightarrow> int \<Rightarrow> db \<times> (error + transaction_doc)" where
  "requestRefund st user docId reason now =
    (if reason = None \<or> reason = Some []
     then (st, Inl (ApiError 400 ''Refund reason is required''))
     else (case findTransaction st docId of
        None \<Rightarrow> (st, Inl (ApiError 404 ''Transaction not found''))
      | Some transaction \<Rightarrow>
         if tx_buyer transaction \<noteq> user_id user
         then (st, Inl (ApiError 403 ''Only the buyer can request a refund''))
         else if tx_status transaction \<noteq> COMPLETED
         then (st, Inl (ApiError 400
                 ''Refund can only be requested for completed transactions''))
         else
          let daysSince = (of_int (now - tx_createdAt transaction) :: rat) /
                            (1000 * 60 * 60 * 24)
          in if daysSince > 30
             then (st, Inl (ApiError 400
                     ''Refund requests can only be made within 30 days''))
             else (case tx_metadata transaction of
                Some loadedMap \<Rightarrow> (st, Inl (ValidationError ''metadata''))
              | None \<Rightarrow>
                 let transaction' = transaction
                       \<lparr>tx_status := DISPUTED,
                        tx_metadata :=
                          Some [(''refundReason'', MStr (the reason)),
                                (''refundRequestedAt'', MDate now),
                                (''refundRequestedBy'', MId (user_id user))]\<rparr>;
                     st1 = saveTransaction transaction' st;
                     st2 = notify (tx_buyer transaction') ''SYSTEM''
                             ''Refund request submitted'' st1
                 in (st2, Inr transaction'))))"

subsection \<open>processRefund\<close>

text \<open>
  \<open>User.findByIdAndUpdate(seller, {$inc: {"statistics.earnings": d}})\<close>. The User
  schema declares \<open>statistics.totalEarnings\<close>, not \<open>statistics.earnings\<close>.
\<close>

definition incStatisticsEarnings :: "oid \<Rightarrow> rat \<Rightarrow> db \<Rightarrow> db" where
  "incStatisticsEarnings uid d st =
    (if strict st then st
     else st\<lparr>users := update_first (\<lambda>u. user_id u = uid)
            (\<lambda>u. u\<lparr>statistics_earnings :=
                     Some ((case statistics_earnings u of None \<Rightarrow> 0 | Some e \<Rightarrow> e) + d)\<rparr>)
            (users st)\<rparr>)"

definition processRefund :: "db \<Rightarrow> oid \<Rightarrow> bool \<Rightarrow> db \<times> (error + transaction_doc)" where
  "processRefund st docId approved =
    (case findTransaction st docId of
       None \<Rightarrow> (st, Inl (ApiError 404 ''Transaction not found''))
     | Some transaction \<Rightarrow>
        if tx_status transaction \<noteq> DISPUTED
        then (st, Inl (ApiError 400 ''Only disputed transactions can be refunded''))
        else if approved then
          let transaction' = transaction\<lparr>tx_status := REFUNDED\<rparr>;
              st1 = incStatisticsEarnings (tx_seller transaction')
                      (- tx_sellerEarnings transaction') st;
              st2 = notify (tx_buyer transaction') ''SYSTEM'' ''Refund approved'' st1;
              st3 = notify (tx_seller transaction') ''SYSTEM'' ''Refund issued'' st2;
              st4 = saveTransaction transaction' st3
          in (st4, Inr transaction')
        else
          let transaction' = transaction\<lparr>tx_status := COMPLETED\<rparr>;
              st1 = notify (tx_buyer transaction') ''SYSTEM'' ''Refund denied'' st;
              st2 = saveTransaction transaction' st1
          in (st2, Inr transaction'))"

section \<open>Review controller\<close>

text \<open>\<open>Review.findOne({rule, user})\<close>: the filter has no \<open>isActive\<close>.\<close>

definition findReviewOf :: "db \<Rightarrow> oid \<Rightarrow> oid \<Rightarrow> review_doc option" where
  "findReviewOf st r u = find (\<lambda>x. review_rule x = r \<and> review_user x = u) (reviews st)"

text \<open>\<open>Review.find({rule, isActive: true})\<close>.\<close>

definition activeReviews :: "db \<Rightarrow> oid \<Rightarrow> review_doc list" where
  "activeReviews st r = filter (\<lambda>x. review_rule x = r \<and> review_isActive x) (reviews st)"

text \<open>
  \<open>allReviews.reduce((sum, r) => sum + r.rating, 0) / allReviews.length\<close>: with no
  review it is \<open>0 / 0\<close>, which is NaN.
\<close>

definition avgRating :: "review_doc list \<Rightarrow> jsnum" where
  "avgRating allReviews =
     (if length allReviews = 0 then NaN
      else Num (of_int (foldl (\<lambda>sum r. sum + review_rating r) 0 allReviews) /
                of_nat (length allReviews)))"

text \<open>
  \<open>Rule.findByIdAndUpdate(ruleId, {"stats.rating": r, "stats.reviewCount": c})\<close>;
  \<open>updateReview\<close> passes no count. The Rule schema declares \<open>statistics.rating\<close> and
  \<open>statistics.totalRatings\<close>, and no \<open>stats\<close>.
\<close>

definition setRuleStats :: "oid \<Rightarrow> jsnum \<Rightarrow> nat option \<Rightarrow> db \<Rightarrow> db" where
  "setRuleStats rid r c st =
    (if strict st then st
     else st\<lparr>rules := update_first (\<lambda>x. rule_id x = rid)
            (\<lambda>x. let s = (case rule_stats x of
                            None \<Rightarrow> \<lparr>stats_purchases = None, stats_revenue = None,
                                     stats_rating = None, stats_reviewCount = None\<rparr>
                          | Some s \<Rightarrow> s)
                  in x\<lparr>rule_stats := Some (s\<lparr>stats_rating := Some r,
                          stats_reviewCount :=
                            (case c of None \<Rightarrow> stats_reviewCount s | Some n \<Rightarrow> Some n)\<rparr>)\<rparr>)
            (rules st)\<rparr>)"

subsection \<open>createReview\<close>

text \<open>
  \<open>exports.createReview\<close>. \<open>const hasPurchased\<close> is declared inside the block of
  \<open>if (rule.pricing && rule.pricing.type === "PAID")\<close>, so the later
  \<open>verified: !!hasPurchased\<close>, outside that block, reads an identifier that no scope
  declares and throws a ReferenceError. It is evaluated while the argument of
  \<open>new Review\<close> is built, before anything is written: no call gets past it.
\<close>

definition createReview ::
  "db \<Rightarrow> user_doc \<Rightarrow> oid \<Rightarrow> int \<Rightarrow> string \<Rightarrow> db \<times> (error + review_doc)" where
  "createReview st user ruleId rating comment =
    (case findRule st ruleId of
       None \<Rightarrow> (st, Inl (ApiError 404 ''Rule not found''))
     | Some rule \<Rightarrow>
        if pricing_type (rule_pricing rule) = Some ''PAID'' \<and>
           findActivePurchase st (user_id user) ruleId = None
        then (st, Inl (ApiError 403 ''You must purchase this rule to leave a review''))
        else (case findReviewOf st ruleId (user_id user) of
           Some existingReview \<Rightarrow>
             (st, Inl (ApiError 409 ''You have already reviewed this rule''))
         | None \<Rightarrow> (st, Inl (ReferenceError ''hasPurchased is not defined''))))"

subsection \<open>updateReview\<close>

text \<open>
  \<open>exports.updateReview\<close>. \<open>rating || review.rating\<close> keeps the stored rating when the
  body has none or has 0, and likewise for an absent or empty comment. \<open>review.save()\<close>
  validates the paths that changed (\<open>rating\<close> in 1..5, \<open>comment\<close> of at most 1000
  characters).
\<close>

definition updateReview ::
  "db \<Rightarrow> user_doc \<Rightarrow> oid \<Rightarrow> int option \<Rightarrow> string option \<Rightarrow> db \<times> (error + review_doc)" where
  "updateReview st user docId rating comment =
    (case findReview st docId of
       None \<Rightarrow> (st, Inl (ApiError 404 ''Review not found''))
     | Some review \<Rightarrow>
        if review_user review \<noteq> user_id user
        then (st, Inl (ApiError 403 ''You can only update your own reviews''))
        else
         let rating' = (case rating of None \<Rightarrow> review_rating review
                        | Some r \<Rightarrow> if r = 0 then review_rating review else r);
             comment' = (case comment of None \<Rightarrow> review_comment review
                        | Some c \<Rightarrow> if c = [] then review_comment review else c);
             review' = review\<lparr>review_rating := rating', review_comment := comment'\<rparr>
         in if rating' \<noteq> review_rating review \<and> \<not> (1 \<le> rating' \<and> rating' \<le> 5)
            then (st, Inl (ValidationError ''rating''))
            else if comment' \<noteq> review_comment review \<and> length comment' > 1000
            then (st, Inl (ValidationError ''comment''))
            else
             let st1 = saveReview review' st;
                 allReviews = activeReviews st1 (review_rule review');
                 st2 = setRuleStats (review_rule review') (avgRating allReviews) None st1
             in (st2, Inr review'))"

subsection \<open>deleteReview\<close>

definition deleteReview :: "db \<Rightarrow> user_doc \<Rightarrow> oid \<Rightarrow> db \<times> (error + unit)" where
  "deleteReview st user docId =
    (case findReview st docId of
       None \<Rightarrow> (st, Inl (ApiError 404 ''Review not found''))
     | Some review \<Rightarrow>
        if review_user review \<noteq> user_id user \<and> user_role user \<noteq> ADMIN
        then (st, Inl (ApiError 403 ''You can only delete your own reviews''))
        else
         let review' = review\<lparr>review_isActive := False\<rparr>;
             st1 = saveReview review' st;
             allReviews = activeReviews st1 (review_rule review')
         in if length allReviews > 0
            then (setRuleStats (review_rule review') (avgRating allReviews)
                    (Some (length allReviews)) st1, Inr ())
            else (setRuleStats (review_rule review') (Num 0) (Some 0) st1, Inr ()))"

subsection \<open>markHelpful\<close>

text \<open>\<open>users.indexOf(x)\<close>: the first position of \<open>x\<close>, \<open>None\<close> for -1.\<close>

fun indexOf :: "'a list \<Rightarrow> 'a \<Rightarrow> nat option" where
  "indexOf [] y = None"
| "indexOf (x # xs) y = (if x = y then Some 0 else map_option Suc (indexOf xs y))"

text \<open>\<open>users.splice(i, 1)\<close>.\<close>

definition splice1 :: "nat \<Rightarrow> 'a list \<Rightarrow> 'a list" where
  "splice1 i xs = take i xs @ drop (Suc i) xs"

text \<open>\<open>exports.markHelpful\<close>; the result is \<open>(helpful, userMarked)\<close> of the response.\<close>

definition markHelpful :: "db \<Rightarrow> user_doc \<Rightarrow> oid \<Rightarrow> bool \<Rightarrow> db \<times> (error + int \<times> bool)" where
  "markHelpful st user docId helpful =
    (case findReview st docId of
       None \<Rightarrow> (st, Inl (ApiError 404 ''Review not found''))
     | Some review \<Rightarrow>
        let userIndex = indexOf (helpful_users review) (user_id user);
            isHelpful = (userIndex \<noteq> None);
            review' =
              (if helpful \<and> \<not> isHelpful
               then review\<lparr>helpful_users := helpful_users review @ [user_id user],
                           helpful_count := helpful_count review + 1\<rparr>
               else if \<not> helpful \<and> isHelpful
               then review\<lparr>helpful_users := splice1 (the userIndex) (helpful_users review),
                           helpful_count := helpful_count review - 1\<rparr>
               else review)
        in (saveReview review' st, Inr (helpful_count review', helpful)))"

section \<open>Rule controller and rule routes: who sees the query\<close>

text \<open>\<open>s.substring(0, n) + marker\<close>.\<close>

definition purchase_marker :: string where
  "purchase_marker = ''... [Purchase to view full content]''"

definition login_placeholder :: string where
  "login_placeholder = ''[Login and purchase to view content]''"

text \<open>
  \<open>exports.getRuleById\<close>; \<open>user\<close> is \<open>req.user\<close>, absent for an anonymous request. The
  view counter is saved before the query is masked, so the mask reaches the response
  only. The result is the rule of the response and its \<open>hasPurchased\<close>.
\<close>

definition getRuleById ::
  "db \<Rightarrow> user_doc option \<Rightarrow> oid \<Rightarrow> db \<times> (error + rule_doc \<times> bool)" where
  "getRuleById st user docId =
    (case findRule st docId of
       None \<Rightarrow> (st, Inl (ApiError 404 ''Rule not found''))
     | Some rule0 \<Rightarrow>
        if rule_visibility rule0 = PRIVATE \<and>
           (case user of None \<Rightarrow> True | Some u \<Rightarrow> rule_author rule0 \<noteq> user_id u)
        then (st, Inl (ApiError 403 ''Access denied''))
        else
         let rule = rule0\<lparr>rule_statistics :=
                      (rule_statistics rule0)\<lparr>views := views (rule_statistics rule0) + 1\<rparr>\<rparr>;
             st1 = saveRule rule st
         in (case user of
               Some u \<Rightarrow>
                 if isPaid (rule_pricing rule) then
                   let hasPurchased = (findActivePurchase st1 (user_id u) (rule_id rule) \<noteq> None)
                   in if \<not> hasPurchased
                      then (st1, Inr (rule\<lparr>rule_query :=
                              take 150 (rule_query rule) @ purchase_marker\<rparr>, hasPurchased))
                      else (st1, Inr (rule, hasPurchased))
                 else (st1, Inr (rule, False))
             | None \<Rightarrow>
                 if isPaid (rule_pricing rule)
                 then (st1, Inr (rule\<lparr>rule_query := login_placeholder\<rparr>, False))
                 else (st1, Inr (rule, False))))"

text \<open>The callback of \<open>rules.map\<close> in \<open>exports.getRules\<close>, applied to each listed rule.\<close>

definition maskedRule :: "db \<Rightarrow> user_doc option \<Rightarrow> rule_doc \<Rightarrow> rule_doc" where
  "maskedRule st user rule =
    (case user of
       Some u \<Rightarrow>
         if isPaid (rule_pricing rule) then
           if findActivePurchase st (user_id u) (rule_id rule) = None
           then rule\<lparr>rule_query := take 100 (rule_query rule) @ purchase_marker\<rparr>
           else rule
         else rule
     | None \<Rightarrow>
         if isPaid (rule_pricing rule) then rule\<lparr>rule_query := login_placeholder\<rparr>
         else rule)"

text \<open>
  The handler of \<open>POST /:id/download\<close> in \<open>ruleRoutes.js\<close>, for an authenticated user.
  The result is the \<open>ruleContent.query\<close> of the response.
\<close>

definition downloadRule :: "db \<Rightarrow> user_doc \<Rightarrow> oid \<Rightarrow> int \<Rightarrow> db \<times> (error + string)" where
  "downloadRule st user docId now =
    (case findRule st docId of
       None \<Rightarrow> (st, Inl (ApiError 404 ''Rule not found''))
     | Some rule \<Rightarrow>
        let isOwner = (rule_author rule = user_id user) in
        if isPaid (rule_pricing rule) \<and> \<not> isOwner \<and>
           findActivePurchase st (user_id user) (rule_id rule) = None
        then (st, Inl (ApiError 403 ''Purchase required to download this rule''))
        else
         let st1 = (if isPaid (rule_pricing rule) \<and> \<not> isOwner
                    then (case findActivePurchase st (user_id user) (rule_id rule) of
                            None \<Rightarrow> st
                          | Some purchase \<Rightarrow>
                              savePurchase (purchase\<lparr>downloads_count :=
                                downloads_count purchase + 1\<rparr>) st)
                    else st);
             rule' = rule\<lparr>rule_statistics :=
                       (rule_statistics rule)\<lparr>downloads := downloads (rule_statistics rule) + 1\<rparr>\<rparr>;
             st2 = saveRule rule' st1;
             st3 = st2\<lparr>activities := activities st2 @
                     [\<lparr>activity_user = user_id user, activity_type = ''RULE_DOWNLOADED'',
                       activity_target = rule_id rule'\<rparr>]\<rparr>
         in (st3, Inr (rule_query rule')))"

section \<open>Properties as the specification words them\<close>

text \<open>
  The Fee Calculator of the specification: \<open>platformFee = round(amount * feeRate)\<close> with
  \<open>feeRate = 0.10\<close>, and \<open>sellerEarnings = amount - platformFee\<close>.
\<close>

definition spec_split :: "rat \<Rightarrow> rat \<times> rat" where
  "spec_split amount =
     (let platformFee = of_int (round (amount * (1 / 10))) in (platformFee, amount - platformFee))"

subsection \<open>Example documents\<close>

definition ex_seller :: user_doc where
  "ex_seller = \<lparr>user_id = 1, username = ''seller'', email = ''seller@example.org'',
     user_role = USER, totalEarnings = 0, statistics_earnings = None\<rparr>"

definition ex_buyer :: user_doc where
  "ex_buyer = \<lparr>user_id = 2, username = ''buyer'', email = ''buyer@example.org'',
     user_role = USER, totalEarnings = 0, statistics_earnings = None\<rparr>"

definition ex_admin :: user_doc where
  "ex_admin = \<lparr>user_id = 3, username = ''admin'', email = ''admin@example.org'',
     user_role = ADMIN, totalEarnings = 0, statistics_earnings = None\<rparr>"

definition ex_statistics :: rule_statistics where
  "ex_statistics = \<lparr>views = 0, downloads = 0, forks = 0, purchases_count = 0, statistics_rating = 0,
     totalRatings = 0\<rparr>"

text \<open>A paid rule as \<open>Rule.js\<close> stores it, priced 29.99.\<close>

definition ex_schema_rule :: rule_doc where
  "ex_schema_rule = \<lparr>rule_id = 10, rule_title = ''Detect'', rule_author = 1,
     rule_query = ''process where name == x'', rule_visibility = PUBLIC,
     rule_pricing = \<lparr>isPaid = True, price = 2999 / 100, currency = ''USD'',
       licenseType = ''SINGLE_USE'', pricing_type = None, pricing_amount = None\<rparr>,
     rule_statistics = ex_statistics, rule_creator = None, rule_stats = None\<rparr>"

text \<open>The same rule with the paths the transaction controller reads.\<close>

definition ex_sale_rule :: rule_doc where
  "ex_sale_rule = ex_schema_rule
     \<lparr>rule_pricing := (rule_pricing ex_schema_rule)
        \<lparr>pricing_type := Some ''PAID'', pricing_amount := Some (2999 / 100)\<rparr>,
      rule_creator := Some 1,
      rule_stats := Some \<lparr>stats_purchases = None, stats_revenue = None, stats_rating = None,
        stats_reviewCount = None\<rparr>\<rparr>"

definition ex_db :: "rule_doc \<Rightarrow> db" where
  "ex_db r = \<lparr>rules = [r], users = [ex_seller, ex_buyer, ex_admin], transactions = [],
     purchases = [], reviews = [], notifications = [], activities = [], next_id = 100,
     strict = True\<rparr>"

text \<open>
  A seeded database: rule 10 with the paths that the transaction controller reads, the
  COMPLETED transaction 100 of buyer 2 for it, stored without a \<open>metadata\<close> map, and
  the buyer's active Purchase 101.
\<close>

definition ex_sold :: db where
  "ex_sold = \<lparr>rules = [ex_sale_rule\<lparr>rule_stats := Some \<lparr>stats_purchases = Some 1,
       stats_revenue = Some (2999 / 100), stats_rating = None, stats_reviewCount = None\<rparr>\<rparr>],
     users = [ex_seller, ex_buyer, ex_admin],
     transactions =
       [\<lparr>tx_id = 100, tx_buyer = 2, tx_seller = 1, tx_rule = 10, tx_amount = 2999 / 100,
         tx_currency = ''USD'', tx_paymentMethod = ''STRIPE'', tx_status = COMPLETED,
         tx_paymentIntentId = ''ab'', tx_platformFee = 2999 / 1000,
         tx_sellerEarnings = 26991 / 1000, tx_createdAt = 0, tx_metadata = None\<rparr>],
     purchases =
       [\<lparr>purchase_id = 101, purchase_user = 2, purchase_rule = 10, purchase_transaction = 100,
         licenseKey = ''CD'', purchase_isActive = True, downloads_count = 0,
         accessGrantedAt = 0\<rparr>],
     reviews = [],
     notifications =
       [\<lparr>recipient = 1, notification_type = ''RULE_PURCHASED'',
         notification_title = ''Your rule was purchased''\<rparr>,
        \<lparr>recipient = 2, notification_type = ''RULE_PURCHASED'',
         notification_title = ''Purchase successful''\<rparr>],
     activities = [], next_id = 102, strict = True\<rparr>"

text \<open>
  The same database with rule 10 as \<open>Rule.js\<close> stores it: the buyer holds an active
  Purchase of a rule that is paid through \<open>pricing.isPaid\<close>.
\<close>

definition ex_owned :: db where
  "ex_owned = ex_sold\<lparr>rules := [ex_schema_rule]\<rparr>"

text \<open>
  The same database with the \<open>metadata\<close> that \<open>purchaseRule\<close> writes on the
  transaction.
\<close>

definition ex_sold_meta :: db where
  "ex_sold_meta = ex_sold\<lparr>transactions :=
     [(hd (transactions ex_sold))\<lparr>tx_metadata :=
        Some [(''ruleTitle'', MStr ''Detect''), (''buyerEmail'', MStr ''buyer@example.org''),
              (''sellerEmail'', MUndefined)]\<rparr>]\<rparr>"

text \<open>
  Ten days after the creation of transaction 100 (864000000 ms) the buyer asks for a
  refund of it, with a reason.
\<close>

definition ex_disputed :: db where
  "ex_disputed = fst (requestRefund ex_sold ex_buyer 100 (Some ''broken'') 864000000)"

text \<open>
  The database \<open>ex_sold\<close> with three active reviews of rule 10, rated 5, 3 and 4, by
  the users 2, 4 and 5; the stored statistics of the rule are the defaults of the schema.
\<close>

definition ex_review :: "oid \<Rightarrow> oid \<Rightarrow> int \<Rightarrow> review_doc" where
  "ex_review i u r = \<lparr>review_id = i, review_rule = 10, review_user = u, review_rating = r,
     review_comment = ''ok'', verified = False, helpful_count = 0, helpful_users = [],
     reported = False, review_isActive = True\<rparr>"

definition ex_reviewed :: db where
  "ex_reviewed = ex_sold\<lparr>reviews := [ex_review 200 2 5, ex_review 201 4 3, ex_review 202 5 4]\<rparr>"

definition ex_reader :: user_doc where
  "ex_reader = \<lparr>user_id = 4, username = ''reader'', email = ''reader@example.org'',
     user_role = USER, totalEarnings = 0, statistics_earnings = None\<rparr>"

text \<open>The buyer soft-deletes the review 200, which is the buyer's own.\<close>

definition ex_deleted :: db where
  "ex_deleted = fst (deleteReview ex_reviewed ex_buyer 200)"

text \<open>
  A database whose only review of rule 10 is soft-deleted, with \<open>strict\<close> off, so that
  updates of undeclared paths are stored.
\<close>

definition ex_lonely :: db where
  "ex_lonely = ex_sold\<lparr>reviews := [(ex_review 200 2 5)\<lparr>review_isActive := False\<rparr>],
     strict := False\<rparr>"

section \<open>Properties\<close>

subsection \<open>Lookups\<close>

lemma find_Some_set: "find P xs = Some x \<Longrightarrow> x \<in> set xs \<and> P x"
  by (induction xs) (auto split: if_splits)

lemma findRule_Some: "findRule st i = Some r \<Longrightarrow> r \<in> set (rules st) \<and> rule_id r = i"
  unfolding findRule_def by (drule find_Some_set) simp

subsection \<open>Rounding to the nearest double\<close>

lemma floorlog_scaled:
  assumes "2 powi e \<le> (x::rat)" "x < 2 powi (e + 1)" "- int c \<le> e"
  shows "int (floorlog 2 (nat \<lfloor>x * 2 ^ c\<rfloor>)) = e + int c + 1"
proof -
  define k where "k = nat (e + int c)"
  from assms(3) have ek: "e = int k - int c" by (simp add: k_def)
  have p: "(2::rat) powi e * 2 ^ c = 2 ^ k"
    by (simp add: ek power_int_diff)
  have p1: "(2::rat) powi (e + 1) * 2 ^ c = 2 ^ Suc k"
    by (simp add: ek power_int_add power_int_diff)
  from assms(1) have "2 powi e * 2 ^ c \<le> x * 2 ^ c" by simp
  with p have lo: "(2::rat) ^ k \<le> x * 2 ^ c" by simp
  from assms(2) have "x * 2 ^ c < 2 powi (e + 1) * 2 ^ c" by simp
  with p1 have hi: "x * 2 ^ c < (2::rat) ^ Suc k" by simp
  define n where "n = nat \<lfloor>x * 2 ^ c\<rfloor>"
  have "(of_int (2 ^ k) :: rat) \<le> x * 2 ^ c" using lo by simp
  then have fl_lo: "(2::int) ^ k \<le> \<lfloor>x * 2 ^ c\<rfloor>" by (simp only: le_floor_iff)
  have "x * 2 ^ c < of_int (2 ^ Suc k)" using hi by simp
  then have fl_hi: "\<lfloor>x * 2 ^ c\<rfloor> < (2::int) ^ Suc k" by (simp only: floor_less_iff)
  have "(0::int) \<le> 2 ^ k" by simp
  with fl_lo have nn: "0 \<le> \<lfloor>x * 2 ^ c\<rfloor>" by linarith
  then have n_eq: "int n = \<lfloor>x * 2 ^ c\<rfloor>" by (simp add: n_def)
  from fl_lo n_eq have "int (2 ^ k) \<le> int n" by simp
  then have n_lo: "2 ^ k \<le> n" by (simp only: of_nat_le_iff)
  from fl_hi n_eq have "int n < int (2 ^ Suc k)" by simp
  then have n_hi: "n < 2 ^ Suc k" by (simp only: of_nat_less_iff)
  from n_lo have "Suc k \<le> floorlog 2 n" by (intro floorlog_ge_SucI) simp_all
  moreover from n_hi have "floorlog 2 n \<le> Suc k" by (simp add: floorlog_le_iff)
  ultimately have "floorlog 2 n = Suc k" by simp
  then show ?thesis by (simp add: n_def [symmetric] ek)
qed

lemma flog2_eqI:
  assumes "2 powi e \<le> x" "x < 2 powi (e + 1)" "- 1074 \<le> e"
  shows "flog2 x = e"
proof -
  from assms(3) have "- int 1074 \<le> e" by simp
  from floorlog_scaled [OF assms(1,2) this]
  have "int (floorlog 2 (nat \<lfloor>x * 2 ^ 1074\<rfloor>)) = e + int 1074 + 1" .
  then show ?thesis unfolding flog2_def by (simp only: of_nat_numeral)
qed

lemma round_even_eqI:
  assumes "of_int m - 1 / 2 < x" "x < of_int m + 1 / 2"
  shows "round_even x = m"
proof -
  have "\<lfloor>x\<rfloor> = m \<or> \<lfloor>x\<rfloor> = m - 1" using assms by linarith
  then show ?thesis
  proof
    assume f: "\<lfloor>x\<rfloor> = m"
    then have "x - of_int m < 1 / 2" using assms by simp
    with f show ?thesis by (simp add: round_even_def Let_def)
  next
    assume f: "\<lfloor>x\<rfloor> = m - 1"
    then have "1 / 2 < x - of_int (m - 1)" using assms by simp
    with f show ?thesis by (simp add: round_even_def Let_def)
  qed
qed

lemma fl_eqI:
  assumes "2 powi e \<le> \<bar>x\<bar>" "\<bar>x\<bar> < 2 powi (e + 1)" "- 1022 \<le> e"
    and "of_int m - 1 / 2 < x / 2 powi (e - 52)" "x / 2 powi (e - 52) < of_int m + 1 / 2"
  shows "fl x = of_int m * 2 powi (e - 52)"
proof -
  from assms(1) have "0 < \<bar>x\<bar>"
    by (meson less_le_trans zero_less_numeral zero_less_power_int)
  then have nz: "x \<noteq> 0" by simp
  from assms(3) have "flog2 \<bar>x\<bar> = e" by (intro flog2_eqI assms) simp
  with assms(3) have "max (flog2 \<bar>x\<bar>) (- 1022) = e" by simp
  with nz round_even_eqI [OF assms(4,5)] show ?thesis
    by (simp add: fl_def Let_def)
qed

text \<open>
  The double 1.2, and below the double 0.1 and the fee, the earnings and their sum as
  the arithmetic of \<open>purchaseRule\<close> gives them for the amount 1.2.
\<close>

lemma fl_6_5: "fl (6 / 5) = 5404319552844595 / 4503599627370496"
proof -
  have "fl (6 / 5) = of_int 5404319552844595 * 2 powi (0 - 52)"
    by (rule fl_eqI) (simp_all add: power_int_minus)
  then show ?thesis by (simp add: power_int_minus)
qed

lemma round_even_tie:
  assumes "x = of_int n + 1 / 2"
  shows "round_even x = (if even n then n else n + 1)"
proof -
  have "\<lfloor>x\<rfloor> = n" using assms by linarith
  with assms show ?thesis by (simp add: round_even_def Let_def)
qed

lemma fl_eqI_tie:
  assumes "2 powi e \<le> \<bar>x\<bar>" "\<bar>x\<bar> < 2 powi (e + 1)" "- 1022 \<le> e"
    and "x / 2 powi (e - 52) = of_int n + 1 / 2"
  shows "fl x = of_int (if even n then n else n + 1) * 2 powi (e - 52)"
proof -
  from assms(1) have "0 < \<bar>x\<bar>"
    by (meson less_le_trans zero_less_numeral zero_less_power_int)
  then have nz: "x \<noteq> 0" by simp
  from assms(3) have "flog2 \<bar>x\<bar> = e" by (intro flog2_eqI assms) simp
  with assms(3) have "max (flog2 \<bar>x\<bar>) (- 1022) = e" by simp
  with nz round_even_tie [OF assms(4)] show ?thesis
    by (simp add: fl_def Let_def)
qed

lemma fl_1_10: "fl (1 / 10) = 7205759403792794 / 72057594037927936"
proof -
  have "fl (1 / 10) = of_int 7205759403792794 * 2 powi (- 4 - 52)"
    by (rule fl_eqI) (simp_all add: power_int_minus)
  then show ?thesis by (simp add: power_int_minus)
qed

lemma fee_6_5:
  "fl (5404319552844595 / 4503599627370496 * (7205759403792794 / 72057594037927936)) =
     8646911284551352 / 72057594037927936"
proof -
  have "fl (5404319552844595 / 4503599627370496 * (7205759403792794 / 72057594037927936)) =
      of_int 8646911284551352 * 2 powi (- 4 - 52)"
    by (rule fl_eqI) (simp_all add: power_int_minus)
  then show ?thesis by (simp add: power_int_minus)
qed

lemma earnings_6_5:
  "fl (5404319552844595 / 4503599627370496 - 8646911284551352 / 72057594037927936) =
     4863887597560136 / 4503599627370496"
proof -
  have "fl (5404319552844595 / 4503599627370496 - 8646911284551352 / 72057594037927936) =
      of_int (if even (4863887597560135::int) then 4863887597560135 else 4863887597560135 + 1) *
        2 powi (0 - 52)"
    by (rule fl_eqI_tie) (simp_all add: power_int_minus)
  then show ?thesis by (simp add: power_int_minus)
qed

lemma sum_6_5:
  "fl (8646911284551352 / 72057594037927936 + 4863887597560136 / 4503599627370496) =
     5404319552844596 / 4503599627370496"
proof -
  have "fl (8646911284551352 / 72057594037927936 + 4863887597560136 / 4503599627370496) =
      of_int (if even (5404319552844595::int) then 5404319552844595 else 5404319552844595 + 1) *
        2 powi (0 - 52)"
    by (rule fl_eqI_tie) (simp_all add: power_int_minus)
  then show ?thesis by (simp add: power_int_minus)
qed

text \<open>
  For the amount 1.2 the fee \<open>amount * 0.1\<close> and the earnings \<open>amount - platformFee\<close>
  do not add up to the amount, neither as JavaScript adds them nor exactly.
\<close>

lemma split_6_5:
  "fl (fl (fl (6 / 5) * fl (1 / 10)) + fl (fl (6 / 5) - fl (fl (6 / 5) * fl (1 / 10)))) \<noteq> fl (6 / 5)"
  by (simp only: fl_6_5 fl_1_10 fee_6_5 earnings_6_5 sum_6_5)

lemma split_6_5_exact:
  "fl (fl (6 / 5) * fl (1 / 10)) + fl (fl (6 / 5) - fl (fl (6 / 5) * fl (1 / 10))) \<noteq> fl (6 / 5)"
  by (simp only: fl_6_5 fl_1_10 fee_6_5 earnings_6_5)

subsection \<open>purchaseRule on rules of the Rule schema\<close>

lemma purchaseRule_not_for_sale:
  assumes "findRule st ruleId = Some rule" "pricing_type (rule_pricing rule) \<noteq> Some ''PAID''"
  shows "purchaseRule st user ruleId pm hex1 hex2 now =
           (st, Inl (ApiError 400 ''This rule is not for sale''))"
  using assms by (simp add: purchaseRule_def)

lemma purchaseRule_not_found:
  assumes "findRule st ruleId = None"
  shows "purchaseRule st user ruleId pm hex1 hex2 now = (st, Inl (ApiError 404 ''Rule not found''))"
  using assms by (simp add: purchaseRule_def)

text \<open>
  C6. When every stored rule conforms to the Rule schema (its pricing has \<open>isPaid\<close>,
  \<open>price\<close>, \<open>currency\<close>, \<open>licenseType\<close> and no \<open>type\<close>), every call of
  \<open>purchaseRule\<close> fails and leaves the database as it was, so it creates no Transaction
  and no Purchase; when the rule exists the failure is the 400 error
  "This rule is not for sale" (when it does not, the 404 error "Rule not found").
\<close>

theorem purchaseRule_schema_rule_not_for_sale:
  assumes "\<forall>r \<in> set (rules st). conforms_rule_schema r"
  shows "fst (purchaseRule st user ruleId pm hex1 hex2 now) = st \<and>
         snd (purchaseRule st user ruleId pm hex1 hex2 now) =
           (if findRule st ruleId = None then Inl (ApiError 404 ''Rule not found'')
            else Inl (ApiError 400 ''This rule is not for sale''))"
proof (cases "findRule st ruleId")
  case None
  then show ?thesis by (simp add: purchaseRule_not_found)
next
  case (Some rule)
  then have "rule \<in> set (rules st)" by (simp add: findRule_Some)
  with assms have "pricing_type (rule_pricing rule) \<noteq> Some ''PAID''"
    by (auto simp: conforms_rule_schema_def)
  with Some show ?thesis by (simp add: purchaseRule_not_for_sale)
qed

theorem purchaseRule_schema_rule_not_for_sale_witness:
  "rules (ex_db ex_schema_rule) = [ex_schema_rule] \<and> conforms_rule_schema ex_schema_rule \<and>
   isPaid (rule_pricing ex_schema_rule) \<and>
   purchaseRule (ex_db ex_schema_rule) ex_buyer 10 None ''ab'' ''CD'' 0 =
     (ex_db ex_schema_rule, Inl (ApiError 400 ''This rule is not for sale''))"
proof -
  have r: "rules (ex_db ex_schema_rule) = [ex_schema_rule]"
    by (simp add: ex_db_def)
  have c: "conforms_rule_schema ex_schema_rule"
    by (simp add: ex_schema_rule_def conforms_rule_schema_def)
  have f: "findRule (ex_db ex_schema_rule) 10 = Some ex_schema_rule"
    by (simp add: findRule_def ex_db_def ex_schema_rule_def)
  have p: "isPaid (rule_pricing ex_schema_rule)"
    by (simp add: ex_schema_rule_def)
  from r c have "\<forall>r \<in> set (rules (ex_db ex_schema_rule)). conforms_rule_schema r"
    by simp
  from purchaseRule_schema_rule_not_for_sale [OF this, of ex_buyer 10 None "''ab''" "''CD''" 0] f
  have "purchaseRule (ex_db ex_schema_rule) ex_buyer 10 None ''ab'' ''CD'' 0 =
     (ex_db ex_schema_rule, Inl (ApiError 400 ''This rule is not for sale''))"
    by (simp add: prod_eq_iff)
  with r c p show ?thesis by simp
qed

subsection \<open>The fee split of purchaseRule\<close>

text \<open>
  What a call that gets as far as line 153 stores: the fee is the product of doubles
  \<open>amount * 0.1\<close>, rounded neither to a whole number nor to cents, and the earnings are
  the difference of doubles; the amount is \<open>pricing.amount\<close>, and the transaction
  carries a \<open>metadata\<close> map.
\<close>

lemma purchaseRule_stored_split:
  assumes "snd (purchaseRule st user ruleId pm hex1 hex2 now) = Inr resp"
  shows "\<exists>rule a. findRule st ruleId = Some rule \<and>
      pricing_type (rule_pricing rule) = Some ''PAID'' \<and>
      pricing_amount (rule_pricing rule) = Some a \<and>
      tx_status (resp_transaction resp) = COMPLETED \<and>
      tx_amount (resp_transaction resp) = a \<and>
      tx_platformFee (resp_transaction resp) = fl (a * fl (1 / 10)) \<and>
      tx_sellerEarnings (resp_transaction resp) = fl (a - fl (a * fl (1 / 10))) \<and>
      tx_metadata (resp_transaction resp) \<noteq> None"
  using assms
  by (auto simp: purchaseRule_def Let_def split: option.splits if_splits)

lemma round_2999: "round (2999 / 1000 :: rat) = 3"
  unfolding round_def by (simp add: floor_unique)

lemma spec_split_2999: "spec_split (2999 / 100) = (3, 2699 / 100)"
  by (simp add: spec_split_def round_2999)

text \<open>
  C1. User 4 buys rule 10, which is stored as \<open>Rule.js\<close> declares it: paid
  (\<open>pricing.isPaid\<close>), priced 29.99 (\<open>pricing.price\<close>), written by user 1; user 4 holds
  no Purchase of it. The Fee Calculator of the specification gives the fee 3 and the
  earnings 26.99 for that price, to be stored on a COMPLETED Transaction.
  \<open>purchaseRule\<close> answers with the 400 error "This rule is not for sale" and stores no
  Transaction: its first check reads \<open>pricing.type\<close>, and line 153 would read
  \<open>pricing.amount\<close>, neither of which the rule has.
\<close>

theorem purchaseRule_stores_no_fee_split:
  "findRule (ex_db ex_schema_rule) 10 = Some ex_schema_rule \<and>
   conforms_rule_schema ex_schema_rule \<and>
   isPaid (rule_pricing ex_schema_rule) \<and>
   price (rule_pricing ex_schema_rule) = 2999 / 100 \<and>
   rule_author ex_schema_rule \<noteq> user_id ex_reader \<and>
   findActivePurchase (ex_db ex_schema_rule) (user_id ex_reader) 10 = None \<and>
   spec_split (2999 / 100) = (3, 2699 / 100) \<and>
   purchaseRule (ex_db ex_schema_rule) ex_reader 10 (Some ''pm_card'') ''ab'' ''CD'' 0 =
     (ex_db ex_schema_rule, Inl (ApiError 400 ''This rule is not for sale'')) \<and>
   transactions (ex_db ex_schema_rule) = []"
proof -
  have f: "findRule (ex_db ex_schema_rule) 10 = Some ex_schema_rule"
    by (simp add: findRule_def ex_db_def ex_schema_rule_def)
  have t: "pricing_type (rule_pricing ex_schema_rule) \<noteq> Some ''PAID''"
    by (simp add: ex_schema_rule_def)
  have c: "conforms_rule_schema ex_schema_rule"
    by (simp add: ex_schema_rule_def conforms_rule_schema_def)
  have r: "isPaid (rule_pricing ex_schema_rule) \<and>
      price (rule_pricing ex_schema_rule) = 2999 / 100 \<and>
      rule_author ex_schema_rule \<noteq> user_id ex_reader"
    by (simp add: ex_schema_rule_def ex_reader_def)
  have a: "findActivePurchase (ex_db ex_schema_rule) (user_id ex_reader) 10 = None"
    by (simp add: findActivePurchase_def ex_db_def)
  have e: "transactions (ex_db ex_schema_rule) = []"
    by (simp add: ex_db_def)
  from f c r a e spec_split_2999 purchaseRule_not_for_sale [OF f t] show ?thesis
    by simp
qed

subsection \<open>A second purchase of the same rule\<close>

lemma purchases_saveRule [simp]: "purchases (saveRule r st) = purchases st"
  by (simp add: saveRule_def)
lemma purchases_saveTransaction [simp]: "purchases (saveTransaction t st) = purchases st"
  by (simp add: saveTransaction_def)
lemma purchases_saveReview [simp]: "purchases (saveReview r st) = purchases st"
  by (simp add: saveReview_def)
lemma purchases_notify [simp]: "purchases (notify a b c st) = purchases st"
  by (simp add: notify_def)
lemma purchases_incStatisticsEarnings [simp]: "purchases (incStatisticsEarnings u d st) = purchases st"
  by (simp add: incStatisticsEarnings_def)
lemma purchases_setRuleStats [simp]: "purchases (setRuleStats i r c st) = purchases st"
  by (simp add: setRuleStats_def)

lemma requestRefund_frame:
  "purchases (fst (requestRefund st user docId reason now)) = purchases st"
  by (simp add: requestRefund_def Let_def split: option.splits)

text \<open>
  The check of lines 138 to 146 comes after the check of \<open>pricing.type\<close>: it answers
  only for a rule document that carries \<open>pricing.type = "PAID"\<close>.
\<close>

lemma purchaseRule_already_purchased:
  assumes "findRule st ruleId = Some rule" "pricing_type (rule_pricing rule) = Some ''PAID''"
    and "findActivePurchase st (user_id user) ruleId = Some p"
  shows "purchaseRule st user ruleId pm hex1 hex2 now =
           (st, Inl (ApiError 409 ''You have already purchased this rule''))"
  using assms by (simp add: purchaseRule_def)

text \<open>
  C2. User 2 holds the active Purchase 101 of rule 10, which is stored as \<open>Rule.js\<close>
  declares it and is paid (\<open>pricing.isPaid\<close>), and buys the rule again. The
  specification has the call fail with AlreadyOwned, the 409 error "You have already
  purchased this rule". \<open>purchaseRule\<close> answers with the 400 error "This rule is not
  for sale", the check of \<open>pricing.type\<close> coming first; the database is unchanged.
\<close>

theorem purchaseRule_of_owned_rule_not_for_sale:
  "findRule ex_owned 10 = Some ex_schema_rule \<and>
   conforms_rule_schema ex_schema_rule \<and>
   isPaid (rule_pricing ex_schema_rule) \<and>
   findActivePurchase ex_owned (user_id ex_buyer) 10 =
     Some \<lparr>purchase_id = 101, purchase_user = 2, purchase_rule = 10, purchase_transaction = 100,
       licenseKey = ''CD'', purchase_isActive = True, downloads_count = 0, accessGrantedAt = 0\<rparr> \<and>
   purchaseRule ex_owned ex_buyer 10 (Some ''pm_card'') ''ab'' ''CD'' 0 =
     (ex_owned, Inl (ApiError 400 ''This rule is not for sale''))"
proof -
  have f: "findRule ex_owned 10 = Some ex_schema_rule"
    by (simp add: findRule_def ex_owned_def ex_schema_rule_def)
  have t: "pricing_type (rule_pricing ex_schema_rule) \<noteq> Some ''PAID''"
    by (simp add: ex_schema_rule_def)
  have c: "conforms_rule_schema ex_schema_rule \<and> isPaid (rule_pricing ex_schema_rule)"
    by (simp add: ex_schema_rule_def conforms_rule_schema_def)
  have a: "findActivePurchase ex_owned (user_id ex_buyer) 10 =
     Some \<lparr>purchase_id = 101, purchase_user = 2, purchase_rule = 10, purchase_transaction = 100,
       licenseKey = ''CD'', purchase_isActive = True, downloads_count = 0, accessGrantedAt = 0\<rparr>"
    by (simp add: findActivePurchase_def ex_owned_def ex_sold_def ex_buyer_def)
  from f c a purchaseRule_not_for_sale [OF f t] show ?thesis
    by simp
qed

subsection \<open>The refund workflow\<close>

lemma daysSince_gt_30:
  "((of_int d :: rat) / (1000 * 60 * 60 * 24) > 30) \<longleftrightarrow> d > 2592000000"
proof -
  have "((of_int d :: rat) / (1000 * 60 * 60 * 24) > 30) \<longleftrightarrow> (of_int d :: rat) > of_int 2592000000"
    by (simp add: field_simps)
  also have "\<dots> \<longleftrightarrow> d > 2592000000" by (simp only: of_int_less_iff)
  finally show ?thesis .
qed

lemma find_update_first:
  assumes "find P xs = Some x" "P y"
  shows "find P (update_first P (\<lambda>x. y) xs) = Some y"
  using assms by (induction xs) (auto split: if_splits)

lemma findTransaction_Some: "findTransaction st i = Some t \<Longrightarrow> t \<in> set (transactions st) \<and> tx_id t = i"
  unfolding findTransaction_def by (drule find_Some_set) simp

lemma findTransaction_save:
  assumes "findTransaction st i = Some t" "tx_id t' = i"
  shows "findTransaction (saveTransaction t' st) i = Some t'"
  using assms by (simp add: findTransaction_def saveTransaction_def find_update_first)

lemma findTransaction_notify [simp]: "findTransaction (notify a b c st) i = findTransaction st i"
  by (simp add: findTransaction_def notify_def)

lemma findTransaction_incStatisticsEarnings [simp]:
  "findTransaction (incStatisticsEarnings u d st) i = findTransaction st i"
  by (simp add: findTransaction_def incStatisticsEarnings_def)

lemma saveTransaction_notify: "saveTransaction t (notify a b c st) = notify a b c (saveTransaction t st)"
  by (simp add: saveTransaction_def notify_def)

lemma requestRefund_succeeds_iff:
  "\<not> isl (snd (requestRefund st user docId reason now)) \<longleftrightarrow>
     reason \<noteq> None \<and> reason \<noteq> Some [] \<and>
     (\<exists>t. findTransaction st docId = Some t \<and> tx_buyer t = user_id user \<and>
          tx_status t = COMPLETED \<and> now - tx_createdAt t \<le> 30 * (1000 * 60 * 60 * 24) \<and>
          tx_metadata t = None)"
  by (auto simp: requestRefund_def Let_def daysSince_gt_30 split: option.splits)

lemma requestRefund_success:
  assumes "reason = Some r" "r \<noteq> []" "findTransaction st docId = Some t"
    "tx_buyer t = user_id user" "tx_status t = COMPLETED"
    "now - tx_createdAt t \<le> 30 * (1000 * 60 * 60 * 24)" "tx_metadata t = None"
  shows "snd (requestRefund st user docId reason now) =
           Inr (t\<lparr>tx_status := DISPUTED,
                  tx_metadata := Some [(''refundReason'', MStr r),
                    (''refundRequestedAt'', MDate now),
                    (''refundRequestedBy'', MId (user_id user))]\<rparr>) \<and>
         findTransaction (fst (requestRefund st user docId reason now)) docId =
           Some (t\<lparr>tx_status := DISPUTED,
                   tx_metadata := Some [(''refundReason'', MStr r),
                     (''refundRequestedAt'', MDate now),
                     (''refundRequestedBy'', MId (user_id user))]\<rparr>)"
  using assms findTransaction_Some [OF assms(3)]
  by (auto simp: requestRefund_def Let_def daysSince_gt_30 saveTransaction_notify [symmetric] findTransaction_save)

lemma requestRefund_loaded_metadata:
  assumes "reason \<noteq> None" "reason \<noteq> Some []" "findTransaction st docId = Some t"
    "tx_buyer t = user_id user" "tx_status t = COMPLETED"
    "now - tx_createdAt t \<le> 30 * (1000 * 60 * 60 * 24)" "tx_metadata t = Some m"
  shows "requestRefund st user docId reason now = (st, Inl (ValidationError ''metadata''))"
  using assms by (auto simp: requestRefund_def Let_def daysSince_gt_30)

lemma requestRefund_expired:
  assumes "reason \<noteq> None" "reason \<noteq> Some []" "findTransaction st docId = Some t"
    "tx_buyer t = user_id user" "tx_status t = COMPLETED"
    "now - tx_createdAt t > 30 * (1000 * 60 * 60 * 24)"
  shows "requestRefund st user docId reason now =
           (st, Inl (ApiError 400 ''Refund requests can only be made within 30 days''))"
  using assms by (auto simp: requestRefund_def Let_def daysSince_gt_30)

lemma processRefund_disputed:
  assumes "findTransaction st docId = Some t" "tx_status t = DISPUTED"
  shows "snd (processRefund st docId True) = Inr (t\<lparr>tx_status := REFUNDED\<rparr>) \<and>
         findTransaction (fst (processRefund st docId True)) docId = Some (t\<lparr>tx_status := REFUNDED\<rparr>) \<and>
         snd (processRefund st docId False) = Inr (t\<lparr>tx_status := COMPLETED\<rparr>) \<and>
         findTransaction (fst (processRefund st docId False)) docId = Some (t\<lparr>tx_status := COMPLETED\<rparr>)"
  using assms findTransaction_Some [OF assms(1)]
  by (auto simp: processRefund_def Let_def findTransaction_save)

lemma processRefund_not_disputed:
  assumes "findTransaction st docId = Some t" "tx_status t \<noteq> DISPUTED"
  shows "processRefund st docId approved =
           (st, Inl (ApiError 400 ''Only disputed transactions can be refunded''))"
  using assms by (simp add: processRefund_def)

lemma totalEarnings_update_first:
  "map totalEarnings (update_first P (\<lambda>u. u\<lparr>statistics_earnings := g u\<rparr>) us) = map totalEarnings us"
  by (induction us) simp_all

lemma processRefund_totalEarnings:
  "map totalEarnings (users (fst (processRefund st docId approved))) = map totalEarnings (users st)"
  by (simp add: processRefund_def Let_def incStatisticsEarnings_def saveTransaction_def notify_def
       totalEarnings_update_first split: option.splits)

lemma ex_disputed_eq:
  "ex_disputed = notify 2 ''SYSTEM'' ''Refund request submitted''
     (ex_sold\<lparr>transactions := [(hd (transactions ex_sold))
        \<lparr>tx_status := DISPUTED,
         tx_metadata := Some [(''refundReason'', MStr ''broken''),
           (''refundRequestedAt'', MDate 864000000), (''refundRequestedBy'', MId 2)]\<rparr>]\<rparr>)"
  by (simp add: ex_disputed_def requestRefund_def findTransaction_def ex_sold_def ex_buyer_def
        Let_def saveTransaction_def)

lemma ex_disputed_transactions:
  "transactions ex_disputed = [(hd (transactions ex_sold))
     \<lparr>tx_status := DISPUTED,
      tx_metadata := Some [(''refundReason'', MStr ''broken''),
        (''refundRequestedAt'', MDate 864000000), (''refundRequestedBy'', MId 2)]\<rparr>]"
  by (simp add: ex_disputed_eq notify_def)

lemma ex_disputed_transaction:
  "findTransaction ex_disputed 100 = Some (hd (transactions ex_disputed)) \<and>
   tx_status (hd (transactions ex_disputed)) = DISPUTED"
  by (simp add: findTransaction_def ex_disputed_transactions) (simp add: ex_sold_def)

text \<open>
  C3. Transaction 100 is DISPUTED, its seller is user 1 and its \<open>sellerEarnings\<close> are
  26.991; every user's stored \<open>totalEarnings\<close> is 0. The admin approves the refund.
  The specification has the seller's stored earnings decreased by 26.991. The
  transaction becomes REFUNDED, and every user's \<open>totalEarnings\<close> is still 0, with
  Mongoose's \<open>strict\<close> on (the update is dropped) or off (a path \<open>statistics.earnings\<close>
  is added to the seller's document): the update names \<open>statistics.earnings\<close>, and the
  User schema has \<open>statistics.totalEarnings\<close>.

  And the request itself: the buyer of the COMPLETED transaction 100, ten days old and
  carrying the \<open>metadata\<close> that \<open>purchaseRule\<close> writes, asks for a refund with a
  reason. The specification has the request succeed and the status become DISPUTED.
  \<open>requestRefund\<close> fails with the ValidationError of \<open>transaction.save()\<close>, and the
  transaction stays COMPLETED.
\<close>

theorem approved_refund_keeps_totalEarnings:
  "findTransaction ex_disputed 100 = Some (hd (transactions ex_disputed)) \<and>
   tx_status (hd (transactions ex_disputed)) = DISPUTED \<and>
   tx_seller (hd (transactions ex_disputed)) = user_id ex_seller \<and>
   tx_sellerEarnings (hd (transactions ex_disputed)) = 26991 / 1000 \<and>
   map totalEarnings (users ex_disputed) = [0, 0, 0] \<and>
   map tx_status (transactions (fst (processRefund ex_disputed 100 True))) = [REFUNDED] \<and>
   map totalEarnings (users (fst (processRefund ex_disputed 100 True))) = [0, 0, 0] \<and>
   map totalEarnings (users (fst (processRefund (ex_disputed\<lparr>strict := False\<rparr>) 100 True))) =
     [0, 0, 0] \<and>
   map statistics_earnings
       (users (fst (processRefund (ex_disputed\<lparr>strict := False\<rparr>) 100 True))) =
     [Some (- (26991 / 1000)), None, None] \<and>
   map tx_buyer (transactions ex_sold_meta) = [user_id ex_buyer] \<and>
   map tx_status (transactions ex_sold_meta) = [COMPLETED] \<and>
   map tx_createdAt (transactions ex_sold_meta) = [0] \<and>
   requestRefund ex_sold_meta ex_buyer 100 (Some ''broken'') 864000000 =
     (ex_sold_meta, Inl (ValidationError ''metadata''))"
proof -
  note t = ex_disputed_transactions
  have h: "tx_seller (hd (transactions ex_disputed)) = user_id ex_seller \<and>
      tx_sellerEarnings (hd (transactions ex_disputed)) = 26991 / 1000"
    by (simp add: t) (simp add: ex_sold_def ex_seller_def)
  have u: "map totalEarnings (users ex_disputed) = [0, 0, 0]"
    by (simp add: ex_disputed_eq notify_def ex_sold_def ex_seller_def ex_buyer_def ex_admin_def)
  have r: "map tx_status (transactions (fst (processRefund ex_disputed 100 True))) = [REFUNDED]"
    by (simp add: processRefund_def findTransaction_def t Let_def saveTransaction_def notify_def
          incStatisticsEarnings_def ex_sold_def)
  have "map totalEarnings (users (fst (processRefund (ex_disputed\<lparr>strict := False\<rparr>) 100 True))) =
      map totalEarnings (users (ex_disputed\<lparr>strict := False\<rparr>))"
    by (rule processRefund_totalEarnings)
  with u have l: "map totalEarnings
      (users (fst (processRefund (ex_disputed\<lparr>strict := False\<rparr>) 100 True))) = [0, 0, 0]"
    by simp
  have s: "map statistics_earnings
       (users (fst (processRefund (ex_disputed\<lparr>strict := False\<rparr>) 100 True))) =
     [Some (- (26991 / 1000)), None, None]"
    by (simp add: processRefund_def findTransaction_def t Let_def saveTransaction_def notify_def
          incStatisticsEarnings_def ex_disputed_eq ex_sold_def ex_seller_def ex_buyer_def
          ex_admin_def)
  have m: "map tx_buyer (transactions ex_sold_meta) = [user_id ex_buyer] \<and>
      map tx_status (transactions ex_sold_meta) = [COMPLETED] \<and>
      map tx_createdAt (transactions ex_sold_meta) = [0]"
    by (simp add: ex_sold_meta_def ex_sold_def ex_buyer_def)
  have q: "requestRefund ex_sold_meta ex_buyer 100 (Some ''broken'') 864000000 =
     (ex_sold_meta, Inl (ValidationError ''metadata''))"
    by (simp add: requestRefund_def findTransaction_def ex_sold_meta_def ex_sold_def
          ex_buyer_def Let_def)
  from ex_disputed_transaction h u r l s m q show ?thesis
    by (simp add: processRefund_totalEarnings)
qed

subsection \<open>What an approved refund changes\<close>

lemma map_update_first: "(\<And>x. g (f x) = g x) \<Longrightarrow> map g (update_first P f xs) = map g xs"
  by (induction xs) simp_all

lemma processRefund_approved_effect:
  assumes "findTransaction st docId = Some t" "tx_status t = DISPUTED"
  shows "purchases (fst (processRefund st docId True)) = purchases st \<and>
     rules (fst (processRefund st docId True)) = rules st \<and>
     reviews (fst (processRefund st docId True)) = reviews st \<and>
     activities (fst (processRefund st docId True)) = activities st \<and>
     transactions (fst (processRefund st docId True)) =
       update_first (\<lambda>x. tx_id x = docId) (\<lambda>x. t\<lparr>tx_status := REFUNDED\<rparr>) (transactions st) \<and>
     map (\<lambda>u. u\<lparr>statistics_earnings := None\<rparr>) (users (fst (processRefund st docId True))) =
       map (\<lambda>u. u\<lparr>statistics_earnings := None\<rparr>) (users st)"
  using assms findTransaction_Some [OF assms(1)]
  by (simp add: processRefund_def Let_def saveTransaction_def notify_def incStatisticsEarnings_def
        map_update_first)
text \<open>
  C10. \<open>processRefund\<close> with \<open>approved = true\<close> on a DISPUTED transaction sets the status
  of that transaction to REFUNDED and, besides the notifications, changes at most the
  \<open>statistics.earnings\<close> of users: the purchases, and with them every active entitlement
  and license key, the rules, the reviews and the activities are what they were.
\<close>

theorem processRefund_keeps_purchase:
  assumes "findTransaction st docId = Some t" and "tx_status t = DISPUTED"
  shows "findTransaction (fst (processRefund st docId True)) docId =
           Some (t\<lparr>tx_status := REFUNDED\<rparr>) \<and>
     transactions (fst (processRefund st docId True)) =
       update_first (\<lambda>x. tx_id x = docId) (\<lambda>x. t\<lparr>tx_status := REFUNDED\<rparr>) (transactions st) \<and>
     purchases (fst (processRefund st docId True)) = purchases st \<and>
     (\<forall>u r. findActivePurchase (fst (processRefund st docId True)) u r =
            findActivePurchase st u r) \<and>
     rules (fst (processRefund st docId True)) = rules st \<and>
     reviews (fst (processRefund st docId True)) = reviews st \<and>
     activities (fst (processRefund st docId True)) = activities st \<and>
     map (\<lambda>u. u\<lparr>statistics_earnings := None\<rparr>) (users (fst (processRefund st docId True))) =
       map (\<lambda>u. u\<lparr>statistics_earnings := None\<rparr>) (users st)"
proof -
  note e = processRefund_approved_effect [OF assms]
  from e have "\<forall>u r. findActivePurchase (fst (processRefund st docId True)) u r =
      findActivePurchase st u r"
    by (simp add: findActivePurchase_def)
  with e processRefund_disputed [OF assms] show ?thesis by blast
qed

theorem processRefund_keeps_purchase_witness:
  "findTransaction ex_disputed 100 = Some (hd (transactions ex_disputed)) \<and>
   tx_status (hd (transactions ex_disputed)) = DISPUTED \<and>
   findTransaction (fst (processRefund ex_disputed 100 True)) 100 =
     Some ((hd (transactions ex_disputed))\<lparr>tx_status := REFUNDED\<rparr>) \<and>
   purchases (fst (processRefund ex_disputed 100 True)) = purchases ex_sold \<and>
   findActivePurchase (fst (processRefund ex_disputed 100 True)) 2 10 =
     Some \<lparr>purchase_id = 101, purchase_user = 2, purchase_rule = 10, purchase_transaction = 100,
       licenseKey = ''CD'', purchase_isActive = True, downloads_count = 0, accessGrantedAt = 0\<rparr>"
proof -
  note d = ex_disputed_transaction
  have p: "purchases ex_disputed = purchases ex_sold"
    by (simp add: ex_disputed_def requestRefund_frame)
  have a: "findActivePurchase ex_disputed 2 10 =
     Some \<lparr>purchase_id = 101, purchase_user = 2, purchase_rule = 10, purchase_transaction = 100,
       licenseKey = ''CD'', purchase_isActive = True, downloads_count = 0, accessGrantedAt = 0\<rparr>"
    by (simp add: findActivePurchase_def p) (simp add: ex_sold_def)
  from processRefund_keeps_purchase [OF conjunct1 [OF d] conjunct2 [OF d]] p a d
  show ?thesis by simp
qed

subsection \<open>markHelpful\<close>

lemma update_first_twice:
  "P y \<Longrightarrow> update_first P (\<lambda>x. z) (update_first P (\<lambda>x. y) xs) = update_first P (\<lambda>x. z) xs"
  by (induction xs) simp_all

lemma update_first_found:
  "find P xs = Some x \<Longrightarrow> update_first P (\<lambda>_. x) xs = xs"
  by (induction xs) (auto split: if_splits)

lemma findReview_Some: "findReview st i = Some r \<Longrightarrow> r \<in> set (reviews st) \<and> review_id r = i"
  unfolding findReview_def by (drule find_Some_set) simp

lemma findReview_save:
  assumes "findReview st i = Some r" "review_id r' = i"
  shows "findReview (saveReview r' st) i = Some r'"
  using assms by (simp add: findReview_def saveReview_def find_update_first)

lemma saveReview_twice:
  "review_id r' = review_id r \<Longrightarrow> saveReview r' (saveReview r st) = saveReview r' st"
  by (simp add: saveReview_def update_first_twice)

lemma saveReview_found: "findReview st i = Some r \<Longrightarrow> saveReview r st = st"
  using findReview_Some [of st i r]
  by (simp add: saveReview_def findReview_def update_first_found)

lemma indexOf_None: "indexOf xs u = None \<longleftrightarrow> u \<notin> set xs"
  by (induction xs) auto

lemma indexOf_append: "u \<notin> set xs \<Longrightarrow> indexOf (xs @ [u]) u = Some (length xs)"
  by (induction xs) auto

lemma splice1_append: "splice1 (length xs) (xs @ [u]) = xs"
  by (simp add: splice1_def)

lemma indexOf_Some_less: "indexOf xs u = Some i \<Longrightarrow> i < length xs \<and> xs ! i = u"
  by (induction xs arbitrary: i) (auto split: if_splits)

lemma indexOf_splice1:
  "distinct xs \<Longrightarrow> indexOf xs u = Some i \<Longrightarrow> indexOf (splice1 i xs) u = None"
  unfolding indexOf_None splice1_def
  by (induction xs arbitrary: i) (auto split: if_splits dest: in_set_takeD in_set_dropD)

lemma markHelpful_first:
  assumes "findReview st docId = Some review" "user_id user \<notin> set (helpful_users review)"
  shows "markHelpful st user docId True =
     (saveReview (review\<lparr>helpful_users := helpful_users review @ [user_id user],
                       helpful_count := helpful_count review + 1\<rparr>) st,
      Inr (helpful_count review + 1, True))"
  using assms by (simp add: markHelpful_def Let_def indexOf_None)

lemma markHelpful_again:
  assumes "findReview st docId = Some review" "user_id user \<in> set (helpful_users review)"
  shows "markHelpful st user docId True = (st, Inr (helpful_count review, True))"
  using assms by (auto simp: markHelpful_def Let_def indexOf_None saveReview_found)

lemma markHelpful_absent_false:
  assumes "findReview st docId = Some review" "user_id user \<notin> set (helpful_users review)"
  shows "markHelpful st user docId False = (st, Inr (helpful_count review, False))"
  using assms by (auto simp: markHelpful_def Let_def indexOf_None saveReview_found)

lemma markHelpful_remove_last:
  assumes "findReview st docId = Some (review\<lparr>helpful_users := us @ [user_id user], helpful_count := c + 1\<rparr>)"
    "user_id user \<notin> set us"
  shows "markHelpful st user docId False =
     (saveReview (review\<lparr>helpful_users := us, helpful_count := c\<rparr>) st, Inr (c, False))"
  using assms by (simp add: markHelpful_def Let_def indexOf_append splice1_append)

lemma markHelpful_toggle:
  assumes f: "findReview st docId = Some review"
    and n: "user_id user \<notin> set (helpful_users review)"
  shows "fst (markHelpful (fst (markHelpful st user docId True)) user docId True) =
           fst (markHelpful st user docId True) \<and>
         findReview (fst (markHelpful st user docId True)) docId =
           Some (review\<lparr>helpful_users := helpful_users review @ [user_id user],
                         helpful_count := helpful_count review + 1\<rparr>) \<and>
         fst (markHelpful (fst (markHelpful (fst (markHelpful st user docId True))
                user docId True)) user docId False) = st"
proof -
  let ?r1 = "review\<lparr>helpful_users := helpful_users review @ [user_id user],
                     helpful_count := helpful_count review + 1\<rparr>"
  let ?st1 = "saveReview ?r1 st"
  from f have i: "review_id review = docId" by (simp add: findReview_Some)
  have s1: "fst (markHelpful st user docId True) = ?st1"
    using f n by (simp add: markHelpful_first)
  have f1: "findReview ?st1 docId = Some ?r1"
    using f i by (simp add: findReview_save)
  have s2: "fst (markHelpful ?st1 user docId True) = ?st1"
    using f1 by (simp add: markHelpful_again)
  have "fst (markHelpful ?st1 user docId False) = saveReview review ?st1"
    using markHelpful_remove_last [where st = ?st1 and docId = docId and review = review
        and us = "helpful_users review" and user = user and c = "helpful_count review"] f1 n
    by simp
  also have "\<dots> = saveReview review st" by (simp add: saveReview_twice)
  also have "\<dots> = st" using f by (rule saveReview_found)
  finally have s3: "fst (markHelpful ?st1 user docId False) = st" .
  from s1 s2 s3 f1 show ?thesis by simp
qed

lemma markHelpful_present_false:
  assumes "findReview st docId = Some review" "indexOf (helpful_users review) (user_id user) = Some i"
  shows "markHelpful st user docId False =
     (saveReview (review\<lparr>helpful_users := splice1 i (helpful_users review),
                       helpful_count := helpful_count review - 1\<rparr>) st,
      Inr (helpful_count review - 1, False))"
  using assms by (simp add: markHelpful_def Let_def)

lemma markHelpful_idempotent:
  assumes f: "findReview st docId = Some review" and d: "distinct (helpful_users review)"
  shows "markHelpful (fst (markHelpful st user docId h)) user docId h =
           (fst (markHelpful st user docId h), snd (markHelpful st user docId h))"
proof -
  from f have i: "review_id review = docId" by (simp add: findReview_Some)
  show ?thesis
  proof (cases "indexOf (helpful_users review) (user_id user)")
    case None
    then have n: "user_id user \<notin> set (helpful_users review)" by (simp add: indexOf_None)
    show ?thesis
    proof (cases h)
      case True
      let ?r1 = "review\<lparr>helpful_users := helpful_users review @ [user_id user],
                         helpful_count := helpful_count review + 1\<rparr>"
      have "findReview (saveReview ?r1 st) docId = Some ?r1"
        using f i by (simp add: findReview_save)
      then have "markHelpful (saveReview ?r1 st) user docId True =
          (saveReview ?r1 st, Inr (helpful_count ?r1, True))"
        by (rule markHelpful_again) simp
      with True f n show ?thesis by (simp add: markHelpful_first)
    next
      case False
      with f n show ?thesis by (simp add: markHelpful_absent_false)
    qed
  next
    case (Some k)
    then have m: "user_id user \<in> set (helpful_users review)"
      using indexOf_None [of "helpful_users review" "user_id user"] by auto
    show ?thesis
    proof (cases h)
      case True
      with f m show ?thesis by (simp add: markHelpful_again)
    next
      case False
      let ?r1 = "review\<lparr>helpful_users := splice1 k (helpful_users review),
                         helpful_count := helpful_count review - 1\<rparr>"
      have f1: "findReview (saveReview ?r1 st) docId = Some ?r1"
        using f i by (simp add: findReview_save)
      have "user_id user \<notin> set (helpful_users ?r1)"
        using indexOf_splice1 [OF d Some] by (simp add: indexOf_None)
      with f1 have "markHelpful (saveReview ?r1 st) user docId False =
          (saveReview ?r1 st, Inr (helpful_count ?r1, False))"
        by (rule markHelpful_absent_false)
      with False f Some show ?thesis by (simp add: markHelpful_present_false)
    qed
  qed
qed

text \<open>
  C9. For a stored review whose helpful users are pairwise different, a second identical
  \<open>markHelpful\<close> call returns what the first returned and changes nothing more. When
  the user is not among the helpful users, \<open>markHelpful(true)\<close> appends the user and
  adds 1 to the count, once, however often it is repeated, and a following
  \<open>markHelpful(false)\<close> restores the database as it was before.
\<close>

theorem markHelpful_toggles_once:
  assumes "findReview st docId = Some review" and "distinct (helpful_users review)"
  shows "markHelpful (fst (markHelpful st user docId h)) user docId h = markHelpful st user docId h \<and>
     (user_id user \<notin> set (helpful_users review) \<longrightarrow>
        findReview (fst (markHelpful st user docId True)) docId =
          Some (review\<lparr>helpful_users := helpful_users review @ [user_id user],
                        helpful_count := helpful_count review + 1\<rparr>) \<and>
        fst (markHelpful (fst (markHelpful st user docId True)) user docId True) =
          fst (markHelpful st user docId True) \<and>
        fst (markHelpful (fst (markHelpful (fst (markHelpful st user docId True))
               user docId True)) user docId False) = st)"
  using markHelpful_idempotent [OF assms, of user h] markHelpful_toggle [OF assms(1), of user]
  by (simp only: prod.collapse) blast

theorem markHelpful_toggles_once_witness:
  "findReview ex_reviewed 200 = Some (ex_review 200 2 5) \<and>
   distinct (helpful_users (ex_review 200 2 5)) \<and>
   user_id ex_admin \<notin> set (helpful_users (ex_review 200 2 5)) \<and>
   findReview (fst (markHelpful ex_reviewed ex_admin 200 True)) 200 =
     Some ((ex_review 200 2 5)\<lparr>helpful_users := [3], helpful_count := 1\<rparr>) \<and>
   markHelpful (fst (markHelpful ex_reviewed ex_admin 200 True)) ex_admin 200 True =
     markHelpful ex_reviewed ex_admin 200 True \<and>
   fst (markHelpful (fst (markHelpful (fst (markHelpful ex_reviewed ex_admin 200 True))
          ex_admin 200 True)) ex_admin 200 False) = ex_reviewed"
proof -
  have f: "findReview ex_reviewed 200 = Some (ex_review 200 2 5)"
    by (simp add: findReview_def ex_reviewed_def ex_review_def)
  have d: "distinct (helpful_users (ex_review 200 2 5))"
    by (simp add: ex_review_def)
  have n: "user_id ex_admin \<notin> set (helpful_users (ex_review 200 2 5))"
    by (simp add: ex_review_def)
  have v: "helpful_users (ex_review 200 2 5) = [] \<and> helpful_count (ex_review 200 2 5) = 0 \<and>
      user_id ex_admin = 3"
    by (simp add: ex_review_def ex_admin_def)
  note t = markHelpful_toggles_once [OF f d, of ex_admin True]
  from t have t1: "markHelpful (fst (markHelpful ex_reviewed ex_admin 200 True)) ex_admin 200 True =
     markHelpful ex_reviewed ex_admin 200 True"
    by blast
  from t n have "findReview (fst (markHelpful ex_reviewed ex_admin 200 True)) 200 =
     Some ((ex_review 200 2 5)\<lparr>helpful_users := helpful_users (ex_review 200 2 5) @ [user_id ex_admin],
        helpful_count := helpful_count (ex_review 200 2 5) + 1\<rparr>)"
    by blast
  then have t2: "findReview (fst (markHelpful ex_reviewed ex_admin 200 True)) 200 =
     Some ((ex_review 200 2 5)\<lparr>helpful_users := [3], helpful_count := 1\<rparr>)"
    by (simp only: v append_Nil add_0)
  from t n have t3: "fst (markHelpful (fst (markHelpful (fst (markHelpful ex_reviewed ex_admin 200 True))
          ex_admin 200 True)) ex_admin 200 False) = ex_reviewed"
    by blast
  from f d n t1 t2 t3 show ?thesis by blast
qed

subsection \<open>createReview\<close>

lemma createReview_never_persists:
  "fst (createReview st user ruleId rating comment) = st \<and>
   isl (snd (createReview st user ruleId rating comment))"
  by (simp add: createReview_def split: option.splits)

lemma createReview_conflict_iff:
  "snd (createReview st user ruleId rating comment) =
      Inl (ApiError 409 ''You have already reviewed this rule'') \<longleftrightarrow>
   (\<exists>rule. findRule st ruleId = Some rule \<and>
      \<not> (pricing_type (rule_pricing rule) = Some ''PAID'' \<and>
         findActivePurchase st (user_id user) ruleId = None)) \<and>
   findReviewOf st ruleId (user_id user) \<noteq> None"
  by (auto simp: createReview_def split: option.splits)

lemma findReviewOf_None:
  "findReviewOf st r u = None \<longleftrightarrow>
     (r, u) \<notin> set (map (\<lambda>x. (review_rule x, review_user x)) (reviews st))"
  by (auto simp: findReviewOf_def find_None_iff)

lemma map_update_first_found:
  "find P xs = Some x \<Longrightarrow> g y = g x \<Longrightarrow> map g (update_first P (\<lambda>_. y) xs) = map g xs"
  by (induction xs) (auto split: if_splits)

lemma saveReview_keys:
  assumes "findReview st i = Some r" "review_id r' = i" "review_rule r' = review_rule r"
    "review_user r' = review_user r"
  shows "map (\<lambda>x. (review_rule x, review_user x)) (reviews (saveReview r' st)) =
         map (\<lambda>x. (review_rule x, review_user x)) (reviews st)"
  using assms
  by (simp add: saveReview_def findReview_def map_update_first_found)

lemma reviews_setRuleStats [simp]: "reviews (setRuleStats i r c st) = reviews st"
  by (simp add: setRuleStats_def)

lemma updateReview_keys:
  "map (\<lambda>x. (review_rule x, review_user x)) (reviews (fst (updateReview st user docId r c))) =
   map (\<lambda>x. (review_rule x, review_user x)) (reviews st)"
  by (cases "findReview st docId")
     (simp_all add: updateReview_def Let_def saveReview_keys findReview_Some)

lemma deleteReview_keys:
  "map (\<lambda>x. (review_rule x, review_user x)) (reviews (fst (deleteReview st user docId))) =
   map (\<lambda>x. (review_rule x, review_user x)) (reviews st)"
  by (cases "findReview st docId")
     (simp_all add: deleteReview_def Let_def saveReview_keys findReview_Some)

lemma review_stays:
  assumes "findReviewOf st ruleId u \<noteq> None"
  shows "findReviewOf (fst (updateReview st user docId r c)) ruleId u \<noteq> None \<and>
         findReviewOf (fst (deleteReview st user docId)) ruleId u \<noteq> None"
  using assms unfolding findReviewOf_None updateReview_keys deleteReview_keys by simp

lemma ex_deleted_eq:
  "ex_deleted = ex_reviewed\<lparr>reviews :=
     [(ex_review 200 2 5)\<lparr>review_isActive := False\<rparr>, ex_review 201 4 3, ex_review 202 5 4]\<rparr>"
  by (simp add: ex_deleted_def deleteReview_def findReview_def ex_reviewed_def ex_review_def
        ex_buyer_def Let_def saveReview_def activeReviews_def setRuleStats_def ex_sold_def)

lemma ex_reviewed_lookups:
  "findRule ex_reviewed 10 = Some (hd (rules ex_sold)) \<and>
   findRule ex_deleted 10 = Some (hd (rules ex_sold)) \<and>
   findRule ex_sold 10 = Some (hd (rules ex_sold)) \<and>
   pricing_type (rule_pricing (hd (rules ex_sold))) = Some ''PAID'' \<and>
   findActivePurchase ex_sold (user_id ex_buyer) 10 \<noteq> None \<and>
   findActivePurchase ex_reviewed (user_id ex_buyer) 10 \<noteq> None \<and>
   findActivePurchase ex_deleted (user_id ex_buyer) 10 \<noteq> None"
  by (simp add: ex_deleted_eq findRule_def findActivePurchase_def ex_reviewed_def ex_sold_def
        ex_sale_rule_def ex_schema_rule_def ex_buyer_def)

text \<open>
  C8, as stated, fails. After the buyer soft-deleted the review 200, no active review of
  rule 10 by the buyer is left, and the buyer's next submission still fails with the 409
  conflict "You have already reviewed this rule".
\<close>

theorem createReview_after_soft_delete_conflicts:
  "filter (\<lambda>x. review_rule x = 10 \<and> review_user x = user_id ex_buyer \<and> review_isActive x)
     (reviews ex_deleted) = [] \<and>
   createReview ex_deleted ex_buyer 10 4 ''again'' =
     (ex_deleted, Inl (ApiError 409 ''You have already reviewed this rule''))"
proof -
  have "findReviewOf ex_deleted 10 (user_id ex_buyer) \<noteq> None"
    by (simp add: findReviewOf_def ex_deleted_eq ex_reviewed_def ex_review_def ex_buyer_def)
  with ex_reviewed_lookups
  have "createReview ex_deleted ex_buyer 10 4 ''again'' =
     (ex_deleted, Inl (ApiError 409 ''You have already reviewed this rule''))"
    by (auto simp: createReview_def)
  then show ?thesis
    by (simp add: ex_deleted_eq ex_reviewed_def ex_review_def ex_buyer_def)
qed

text \<open>
  C8, amended. \<open>createReview\<close> fails with the 409 conflict "You have already reviewed
  this rule" exactly when the rule exists, the purchase check passes (the rule's
  \<open>pricing.type\<close> is not "PAID", or the user holds an active Purchase of it) and some
  Review of the rule by the user is stored, active or soft-deleted. A stored review stays
  stored through \<open>updateReview\<close> and \<open>deleteReview\<close>, so a second submission meets the
  conflict after the first review was edited and also after it was soft-deleted.
\<close>

theorem createReview_conflict_with_any_stored_review:
  "(snd (createReview st user ruleId rating comment) =
      Inl (ApiError 409 ''You have already reviewed this rule'') \<longleftrightarrow>
    (\<exists>rule. findRule st ruleId = Some rule \<and>
       \<not> (pricing_type (rule_pricing rule) = Some ''PAID'' \<and>
          findActivePurchase st (user_id user) ruleId = None)) \<and>
    findReviewOf st ruleId (user_id user) \<noteq> None) \<and>
   (findReviewOf st ruleId (user_id user) \<noteq> None \<longrightarrow>
      findReviewOf (fst (updateReview st editor docId r c)) ruleId (user_id user) \<noteq> None \<and>
      findReviewOf (fst (deleteReview st editor docId)) ruleId (user_id user) \<noteq> None)"
  using createReview_conflict_iff [of st user ruleId rating comment]
    review_stays [of st ruleId "user_id user" editor docId r c]
  by blast

theorem createReview_conflict_with_any_stored_review_witness:
  "findRule ex_deleted 10 = Some (hd (rules ex_sold)) \<and>
   findActivePurchase ex_deleted (user_id ex_buyer) 10 \<noteq> None \<and>
   findReviewOf ex_reviewed 10 (user_id ex_buyer) \<noteq> None \<and>
   findReviewOf ex_deleted 10 (user_id ex_buyer) \<noteq> None \<and>
   findReviewOf (fst (updateReview ex_reviewed ex_buyer 200 (Some 4) None)) 10 (user_id ex_buyer)
     \<noteq> None \<and>
   snd (createReview ex_deleted ex_buyer 10 4 ''again'') =
     Inl (ApiError 409 ''You have already reviewed this rule'')"
proof -
  have f: "findReviewOf ex_reviewed 10 (user_id ex_buyer) \<noteq> None"
    by (simp add: findReviewOf_def ex_reviewed_def ex_review_def ex_buyer_def)
  from createReview_conflict_with_any_stored_review
         [of ex_reviewed ex_buyer 10 4 "''again''" ex_buyer 200 "Some 4" None] f
  have d: "findReviewOf ex_deleted 10 (user_id ex_buyer) \<noteq> None"
    and u: "findReviewOf (fst (updateReview ex_reviewed ex_buyer 200 (Some 4) None)) 10
        (user_id ex_buyer) \<noteq> None"
    unfolding ex_deleted_def by blast+
  from createReview_conflict_with_any_stored_review
         [of ex_deleted ex_buyer 10 4 "''again''" ex_buyer 200 None None] d ex_reviewed_lookups
  have "snd (createReview ex_deleted ex_buyer 10 4 ''again'') =
     Inl (ApiError 409 ''You have already reviewed this rule'')"
    by auto
  with f d u ex_reviewed_lookups show ?thesis by simp
qed

text \<open>
  C7: what the code does at the inputs where the claim expects a stored Review. The
  buyer holds an active Purchase of the rule 10, whose \<open>pricing.type\<close> is "PAID", and
  has not reviewed it: \<open>createReview\<close> throws the ReferenceError and stores nothing.
  So it does for a rule as \<open>Rule.js\<close> stores it, paid by \<open>pricing.isPaid\<close>, that the
  user has not bought: the purchase check does not run, since \<open>pricing.type\<close> is absent.
\<close>

theorem createReview_throws_before_saving:
  "findRule ex_sold 10 = Some (hd (rules ex_sold)) \<and>
   pricing_type (rule_pricing (hd (rules ex_sold))) = Some ''PAID'' \<and>
   findActivePurchase ex_sold (user_id ex_buyer) 10 \<noteq> None \<and>
   reviews ex_sold = [] \<and>
   createReview ex_sold ex_buyer 10 5 ''good'' =
     (ex_sold, Inl (ReferenceError ''hasPurchased is not defined'')) \<and>
   isPaid (rule_pricing ex_schema_rule) \<and>
   findActivePurchase (ex_db ex_schema_rule) (user_id ex_buyer) 10 = None \<and>
   createReview (ex_db ex_schema_rule) ex_buyer 10 5 ''good'' =
     (ex_db ex_schema_rule, Inl (ReferenceError ''hasPurchased is not defined''))"
proof -
  have r: "reviews ex_sold = []" by (simp add: ex_sold_def)
  then have "findReviewOf ex_sold 10 (user_id ex_buyer) = None"
    by (simp add: findReviewOf_def)
  with ex_reviewed_lookups
  have a: "createReview ex_sold ex_buyer 10 5 ''good'' =
     (ex_sold, Inl (ReferenceError ''hasPurchased is not defined''))"
    by (auto simp: createReview_def)
  have b: "createReview (ex_db ex_schema_rule) ex_buyer 10 5 ''good'' =
     (ex_db ex_schema_rule, Inl (ReferenceError ''hasPurchased is not defined''))"
    by (simp add: createReview_def findRule_def findReviewOf_def ex_db_def ex_schema_rule_def)
  have c: "isPaid (rule_pricing ex_schema_rule) \<and>
      findActivePurchase (ex_db ex_schema_rule) (user_id ex_buyer) 10 = None"
    by (simp add: ex_schema_rule_def findActivePurchase_def ex_db_def)
  from ex_reviewed_lookups r a b c show ?thesis by blast
qed

subsection \<open>The rating aggregate\<close>

lemma rule_statistics_setRuleStats:
  "map rule_statistics (rules (setRuleStats i r c st)) = map rule_statistics (rules st)"
  by (simp add: setRuleStats_def map_update_first Let_def)

lemma rules_saveReview [simp]: "rules (saveReview r st) = rules st"
  by (simp add: saveReview_def)

text \<open>
  No handler of the review controller writes \<open>statistics.rating\<close> or
  \<open>statistics.totalRatings\<close> of a rule, with \<open>strict\<close> on or off.
\<close>

lemma review_writes_keep_statistics:
  "map rule_statistics (rules (fst (createReview st user ruleId rating comment))) =
     map rule_statistics (rules st) \<and>
   map rule_statistics (rules (fst (updateReview st user docId r c))) =
     map rule_statistics (rules st) \<and>
   map rule_statistics (rules (fst (deleteReview st user docId))) =
     map rule_statistics (rules st)"
  by (simp add: createReview_never_persists updateReview_def deleteReview_def Let_def
        rule_statistics_setRuleStats split: option.splits)

lemma ex_reader_deletes:
  "deleteReview ex_reviewed ex_reader 201 =
     (ex_reviewed\<lparr>reviews :=
        [ex_review 200 2 5, (ex_review 201 4 3)\<lparr>review_isActive := False\<rparr>, ex_review 202 5 4]\<rparr>,
      Inr ())"
  by (simp add: deleteReview_def findReview_def ex_reviewed_def ex_review_def
        ex_reader_def Let_def saveReview_def activeReviews_def setRuleStats_def ex_sold_def)

lemma ex_reader_deletes_loose:
  "rules (fst (deleteReview (ex_reviewed\<lparr>strict := False\<rparr>) ex_reader 201)) =
     [(hd (rules ex_sold))\<lparr>rule_stats := Some \<lparr>stats_purchases = Some 1,
        stats_revenue = Some (2999 / 100), stats_rating = Some (Num (9 / 2)),
        stats_reviewCount = Some 2\<rparr>\<rparr>]"
  by (simp add: deleteReview_def findReview_def ex_reviewed_def ex_review_def
        ex_reader_def Let_def saveReview_def activeReviews_def setRuleStats_def ex_sold_def
        avgRating_def ex_sale_rule_def ex_schema_rule_def)

text \<open>
  C4: what the code does where the claim expects 4.5 and 2. Rule 10 has the active
  ratings 5, 3, 4 and the stored \<open>statistics.rating = 0\<close>, \<open>statistics.totalRatings = 0\<close>.
  The author of the rating 3 soft-deletes it: the call succeeds, the active ratings are
  5 and 4, with mean 4.5, and the stored \<open>statistics\<close> are still 0 and 0. With \<open>strict\<close>
  on the rule document is not written at all; with \<open>strict\<close> off the mean and the count
  go to \<open>stats.rating\<close> and \<open>stats.reviewCount\<close>. And when the buyer updates a review that
  is soft-deleted, no active review being left, \<open>updateReview\<close> succeeds and computes
  \<open>0 / 0\<close>: with \<open>strict\<close> off, \<open>stats.rating\<close> is NaN, not 0.
\<close>

theorem deleteReview_keeps_statistics_rating:
  "map review_rating (activeReviews ex_reviewed 10) = [5, 3, 4] \<and>
   snd (deleteReview ex_reviewed ex_reader 201) = Inr () \<and>
   map review_rating (activeReviews (fst (deleteReview ex_reviewed ex_reader 201)) 10) = [5, 4] \<and>
   avgRating (activeReviews (fst (deleteReview ex_reviewed ex_reader 201)) 10) = Num (9 / 2) \<and>
   rules (fst (deleteReview ex_reviewed ex_reader 201)) = rules ex_reviewed \<and>
   map (\<lambda>r. (statistics_rating (rule_statistics r), totalRatings (rule_statistics r)))
     (rules (fst (deleteReview ex_reviewed ex_reader 201))) = [(0, 0)] \<and>
   map (\<lambda>r. (statistics_rating (rule_statistics r), totalRatings (rule_statistics r)))
     (rules (fst (deleteReview (ex_reviewed\<lparr>strict := False\<rparr>) ex_reader 201))) = [(0, 0)] \<and>
   map (\<lambda>r. map_option (\<lambda>s. (stats_rating s, stats_reviewCount s)) (rule_stats r))
     (rules (fst (deleteReview (ex_reviewed\<lparr>strict := False\<rparr>) ex_reader 201))) =
     [Some (Some (Num (9 / 2)), Some 2)] \<and>
   activeReviews ex_lonely 10 = [] \<and>
   \<not> isl (snd (updateReview ex_lonely ex_buyer 200 (Some 4) None)) \<and>
   activeReviews (fst (updateReview ex_lonely ex_buyer 200 (Some 4) None)) 10 = [] \<and>
   map (\<lambda>r. map_option stats_rating (rule_stats r))
     (rules (fst (updateReview ex_lonely ex_buyer 200 (Some 4) None))) = [Some (Some NaN)]"
proof -
  have a: "map review_rating (activeReviews ex_reviewed 10) = [5, 3, 4] \<and>
      map review_rating (activeReviews (fst (deleteReview ex_reviewed ex_reader 201)) 10) = [5, 4] \<and>
      avgRating (activeReviews (fst (deleteReview ex_reviewed ex_reader 201)) 10) = Num (9 / 2)"
    by (simp add: ex_reader_deletes)
       (simp add: activeReviews_def ex_reviewed_def ex_review_def avgRating_def)
  have b: "map (\<lambda>r. (statistics_rating (rule_statistics r), totalRatings (rule_statistics r)))
      (rules (fst (deleteReview ex_reviewed ex_reader 201))) = [(0, 0)]"
    by (simp add: ex_reader_deletes)
       (simp add: ex_reviewed_def ex_sold_def ex_sale_rule_def ex_schema_rule_def
          ex_statistics_def)
  have c: "map (\<lambda>r. (statistics_rating (rule_statistics r), totalRatings (rule_statistics r)))
      (rules (fst (deleteReview (ex_reviewed\<lparr>strict := False\<rparr>) ex_reader 201))) = [(0, 0)]"
    by (simp add: ex_reader_deletes_loose)
       (simp add: ex_sold_def ex_sale_rule_def ex_schema_rule_def ex_statistics_def)
  have d: "map (\<lambda>r. map_option (\<lambda>s. (stats_rating s, stats_reviewCount s)) (rule_stats r))
      (rules (fst (deleteReview (ex_reviewed\<lparr>strict := False\<rparr>) ex_reader 201))) =
      [Some (Some (Num (9 / 2)), Some 2)]"
    by (simp add: ex_reader_deletes_loose)
  have u: "updateReview ex_lonely ex_buyer 200 (Some 4) None =
      (ex_lonely\<lparr>reviews := [(ex_review 200 2 4)\<lparr>review_isActive := False\<rparr>],
         rules := [(hd (rules ex_sold))\<lparr>rule_stats := Some \<lparr>stats_purchases = Some 1,
           stats_revenue = Some (2999 / 100), stats_rating = Some NaN,
           stats_reviewCount = None\<rparr>\<rparr>]\<rparr>,
       Inr ((ex_review 200 2 4)\<lparr>review_isActive := False\<rparr>))"
    by (simp add: updateReview_def findReview_def ex_lonely_def ex_review_def ex_buyer_def
          Let_def saveReview_def activeReviews_def setRuleStats_def ex_sold_def avgRating_def
          ex_sale_rule_def ex_schema_rule_def)
  have e: "activeReviews ex_lonely 10 = [] \<and>
      \<not> isl (snd (updateReview ex_lonely ex_buyer 200 (Some 4) None)) \<and>
      activeReviews (fst (updateReview ex_lonely ex_buyer 200 (Some 4) None)) 10 = [] \<and>
      map (\<lambda>r. map_option stats_rating (rule_stats r))
        (rules (fst (updateReview ex_lonely ex_buyer 200 (Some 4) None))) = [Some (Some NaN)]"
    by (simp add: u) (simp add: activeReviews_def ex_lonely_def ex_review_def)
  from a b c d e show ?thesis by (simp add: ex_reader_deletes)
qed

subsection \<open>Who sees the query of a paid rule\<close>

text \<open>
  The query in the response of \<open>getRuleById\<close>, for a rule the requester may see: the
  stored query when the rule is not paid or the requester holds an active Purchase, the
  placeholder for an anonymous requester, and otherwise, the author of the rule
  included, the first 150 characters followed by the marker.
\<close>

lemma getRuleById_query:
  assumes "findRule st docId = Some rule"
    and "\<not> (rule_visibility rule = PRIVATE \<and>
           (case user of None \<Rightarrow> True | Some u \<Rightarrow> rule_author rule \<noteq> user_id u))"
  shows "map_sum (\<lambda>e. e) (\<lambda>(r, h). rule_query r) (snd (getRuleById st user docId)) =
     Inr (if \<not> isPaid (rule_pricing rule) then rule_query rule
          else (case user of
                  None \<Rightarrow> login_placeholder
                | Some u \<Rightarrow>
                    if findActivePurchase st (user_id u) docId \<noteq> None then rule_query rule
                    else take 150 (rule_query rule) @ purchase_marker))"
  using assms findRule_Some [OF assms(1)]
  by (auto simp: getRuleById_def Let_def findActivePurchase_def split: option.splits)

text \<open>
  C5: what the code does for the author of a paid rule. The seller, author of rule 10
  and without a Purchase of it, gets from \<open>getRuleById\<close> and from the list of
  \<open>getRules\<close> the query followed by the purchase marker, and \<open>hasPurchased = false\<close>;
  the download route gives the same user the stored query.
\<close>

theorem getRuleById_masks_the_author:
  "rule_author ex_schema_rule = user_id ex_seller \<and>
   isPaid (rule_pricing ex_schema_rule) \<and>
   rule_query ex_schema_rule = ''process where name == x'' \<and>
   findActivePurchase (ex_db ex_schema_rule) (user_id ex_seller) 10 = None \<and>
   snd (getRuleById (ex_db ex_schema_rule) (Some ex_seller) 10) =
     Inr (ex_schema_rule\<lparr>rule_statistics := ex_statistics\<lparr>views := 1\<rparr>,
            rule_query := ''process where name == x... [Purchase to view full content]''\<rparr>,
          False) \<and>
   rule_query (maskedRule (ex_db ex_schema_rule) (Some ex_seller) ex_schema_rule) =
     ''process where name == x... [Purchase to view full content]'' \<and>
   snd (downloadRule (ex_db ex_schema_rule) ex_seller 10 0) = Inr ''process where name == x''"
proof -
  have a: "rule_author ex_schema_rule = user_id ex_seller \<and> isPaid (rule_pricing ex_schema_rule) \<and>
      rule_query ex_schema_rule = ''process where name == x'' \<and>
      findActivePurchase (ex_db ex_schema_rule) (user_id ex_seller) 10 = None"
    by (simp add: ex_schema_rule_def ex_seller_def findActivePurchase_def ex_db_def)
  have b: "snd (getRuleById (ex_db ex_schema_rule) (Some ex_seller) 10) =
     Inr (ex_schema_rule\<lparr>rule_statistics := ex_statistics\<lparr>views := 1\<rparr>,
            rule_query := ''process where name == x... [Purchase to view full content]''\<rparr>,
          False)"
    by (simp add: getRuleById_def findRule_def ex_db_def ex_schema_rule_def ex_seller_def Let_def
          saveRule_def findActivePurchase_def purchase_marker_def ex_statistics_def)
  have c: "rule_query (maskedRule (ex_db ex_schema_rule) (Some ex_seller) ex_schema_rule) =
     ''process where name == x... [Purchase to view full content]''"
    by (simp add: maskedRule_def ex_db_def ex_schema_rule_def ex_seller_def
          findActivePurchase_def purchase_marker_def)
  have d: "snd (downloadRule (ex_db ex_schema_rule) ex_seller 10 0) =
     Inr ''process where name == x''"
    by (simp add: downloadRule_def findRule_def ex_db_def ex_schema_rule_def ex_seller_def Let_def)
  from a b c d show ?thesis by simp
qed

end
